theory Spec2Isabelle
  imports Complex_Main "HOL-Library.AList"
begin

chapter \<open>The model\<close>

section \<open>Exceptions\<close>

text \<open>
  The Python exceptions the modelled code raises. A function that can raise returns
  \<open>error + 'a\<close> with \<open>Inl\<close> the exception; a method that mutates its object before it
  raises returns the result together with the object as the exception leaves it.
  \<open>RuntimeError\<close> carries the message of the source (the template, where the source
  formats values into it; the empty string for a bare \<open>RuntimeError()\<close>).

  Python floats are modelled by the real numbers: the arithmetic of the model is exact,
  and rounding, infinities and NaN are outside it.
\<close>

datatype error =
    RuntimeError string
  | TypeError
  | ValueError
  | RecursionError
  | NotImplementedError

section \<open>The cache with declarative invalidation (\<open>bases.py\<close>, class \<open>Cache\<close>)\<close>

text \<open>
  \<open>Cache\<close> holds two dictionaries keyed by the method name: \<open>_cache\<close> with the stored
  data and \<open>_clear_conditions\<close> with the clear condition of each entry, a tuple of
  property names or \<open>None\<close>. A Python dictionary is an association list in insertion
  order whose keys are distinct; \<open>d[k] = v\<close> is \<open>AList.update\<close> and \<open>d.pop(k, None)\<close> is
  \<open>AList.delete\<close>.
\<close>

record 'v Cache =
  cache :: "(string \<times> 'v) list"
  clear_conditions :: "(string \<times> string list option) list"

text \<open>The message an observable sends: \<open>{'notifier': name, 'change': change}\<close>.\<close>

record message =
  notifier :: string
  change :: bool

definition update_cache :: "'v Cache \<Rightarrow> string \<Rightarrow> 'v \<Rightarrow> string list option \<Rightarrow> 'v Cache" where
  "update_cache c key data clear_condition =
     c\<lparr>cache := AList.update key data (cache c),
       clear_conditions := AList.update key clear_condition (clear_conditions c)\<rparr>"

text \<open>
  The first loop of \<open>Cache.notify\<close>, over \<open>self._clear_conditions.items()\<close>: the keys to
  pop, in the order of the dictionary.
\<close>

fun collect_pop :: "string \<Rightarrow> (string \<times> string list option) list \<Rightarrow> string list" where
  "collect_pop name [] = []"
| "collect_pop name ((key, conditions) # rest) =
     (case conditions of
        None \<Rightarrow> key # collect_pop name rest
      | Some cs \<Rightarrow>
          if name \<in> set cs then key # collect_pop name rest else collect_pop name rest)"

text \<open>The second loop: \<open>for key in pop\<close>, popping the key from both dictionaries.\<close>

fun pop_keys :: "string list \<Rightarrow> 'v Cache \<Rightarrow> 'v Cache" where
  "pop_keys [] c = c"
| "pop_keys (key # keys) c =
     pop_keys keys
       (c\<lparr>cache := AList.delete key (cache c),
          clear_conditions := AList.delete key (clear_conditions c)\<rparr>)"

definition Cache_notify :: "'v Cache \<Rightarrow> message \<Rightarrow> 'v Cache" where
  "Cache_notify c m =
     pop_keys (if change m then collect_pop (notifier m) (clear_conditions c) else []) c"

text \<open>
  What the first loop decides for one key, read off the dictionary of clear conditions:
  the key has an entry, and its condition is \<open>None\<close> or contains the notifier.
\<close>

fun purged :: "string \<Rightarrow> string list option option \<Rightarrow> bool" where
  "purged name None = False"
| "purged name (Some None) = True"
| "purged name (Some (Some cs)) = (name \<in> set cs)"


section \<open>Arrays and the Fourier-space convolution (\<open>device.py\<close>)\<close>

text \<open>
  A complex numpy array: its shape and its elements in row-major order. Arrays are
  mutable objects, so they live in a store: a reference is an index into the list of all
  arrays, \<open>array.copy()\<close> allocates a new one, and an in-place operation overwrites the
  array at its reference.
\<close>

record ndarray =
  shape :: "nat list"
  data :: "complex list"

type_synonym store = "ndarray list"

definition array_copy :: "store \<Rightarrow> nat \<Rightarrow> store \<times> nat" where
  "array_copy h a = (h @ [h ! a], length h)"

text \<open>
  \<open>array[i]\<close> of an array with a leading axis is a view: the \<open>i\<close>-th block of the data.
  An in-place operation on the view overwrites that block of the parent.
\<close>

definition slice_size :: "ndarray \<Rightarrow> nat" where
  "slice_size x = prod_list (tl (shape x))"

definition get_slice :: "ndarray \<Rightarrow> nat \<Rightarrow> ndarray" where
  "get_slice x i =
     \<lparr>shape = tl (shape x), data = take (slice_size x) (drop (i * slice_size x) (data x))\<rparr>"

definition set_slice :: "ndarray \<Rightarrow> nat \<Rightarrow> ndarray \<Rightarrow> ndarray" where
  "set_slice x i s =
     x\<lparr>data := take (i * slice_size x) (data x) @ data s @
                drop (Suc i * slice_size x) (data x)\<rparr>"

text \<open>
  \<open>array *= kernel\<close> for a kernel of the shape of the array: the elementwise product,
  written into the array. Any other kernel is answered with \<open>ValueError\<close>; numpy's
  broadcasting of a smaller kernel is not modelled.
\<close>

definition elementwise_product :: "ndarray \<Rightarrow> ndarray \<Rightarrow> ndarray" where
  "elementwise_product x k = x\<lparr>data := map2 (*) (data x) (data k)\<rparr>"

definition imul :: "ndarray \<Rightarrow> ndarray \<Rightarrow> error + ndarray" where
  "imul x k = (if shape k = shape x then Inr (elementwise_product x k) else Inl ValueError)"

text \<open>
  The inner function \<open>_fft_convolve\<close> of \<open>fft2_convolve\<close>, on the content of the buffer
  it is given: three in-place steps. The transforms \<open>mkl_fft.fft2\<close> and \<open>mkl_fft.ifft2\<close>
  (called with \<open>overwrite_x=True\<close> on a complex array, which they transform in place)
  belong to an external library and are parameters. The result is the content of the
  buffer at the end, with the exception if the product raised.
\<close>

definition fft_convolve ::
  "(ndarray \<Rightarrow> ndarray) \<Rightarrow> (ndarray \<Rightarrow> ndarray) \<Rightarrow> ndarray \<Rightarrow> ndarray \<Rightarrow> (error + unit) \<times> ndarray"
where
  "fft_convolve fft2 ifft2 x kern =
     (case imul (fft2 x) kern of
        Inl e \<Rightarrow> (Inl e, fft2 x)
      | Inr p \<Rightarrow> (Inr (), ifft2 p))"

text \<open>The loop \<open>for i in range(len(array))\<close> of the three-dimensional branch.\<close>

fun convolve_slices ::
  "(ndarray \<Rightarrow> ndarray) \<Rightarrow> (ndarray \<Rightarrow> ndarray) \<Rightarrow> store \<Rightarrow> nat \<Rightarrow> ndarray \<Rightarrow> nat list \<Rightarrow>
     (error + nat) \<times> store"
where
  "convolve_slices fft2 ifft2 h a kern [] = (Inr a, h)"
| "convolve_slices fft2 ifft2 h a kern (i # rest) =
     (case fft_convolve fft2 ifft2 (get_slice (h ! a) i) kern of
        (Inl e, x) \<Rightarrow> (Inl e, h[a := set_slice (h ! a) i x])
      | (Inr u, x) \<Rightarrow> convolve_slices fft2 ifft2 (h[a := set_slice (h ! a) i x]) a kern rest)"

text \<open>
  \<open>fft2_convolve(array, kernel, overwrite_x)\<close>: the reference \<open>a\<close> of the array in the
  store \<open>h\<close>; the result is the reference returned (or the exception) and the store
  afterwards.
\<close>

definition fft2_convolve ::
  "(ndarray \<Rightarrow> ndarray) \<Rightarrow> (ndarray \<Rightarrow> ndarray) \<Rightarrow> store \<Rightarrow> nat \<Rightarrow> ndarray \<Rightarrow> bool \<Rightarrow>
     (error + nat) \<times> store"
where
  "fft2_convolve fft2 ifft2 h a kern overwrite_x =
     (let (h1, a1) = (if \<not> overwrite_x then array_copy h a else (h, a)) in
      if length (shape (h1 ! a1)) = 2 then
        (case fft_convolve fft2 ifft2 (h1 ! a1) kern of
           (Inl e, x) \<Rightarrow> (Inl e, h1[a1 := x])
         | (Inr u, x) \<Rightarrow> (Inr a1, h1[a1 := x]))
      else if length (shape (h1 ! a1)) = 3 \<and> overwrite_x then
        convolve_slices fft2 ifft2 h1 a1 kern [0..<hd (shape (h1 ! a1))]
      else (Inl ValueError, h1))"

section \<open>Wave functions (\<open>waves/waves.py\<close>, class \<open>Waves\<close>)\<close>

text \<open>
  A \<open>Waves\<close> object owns an array, an accelerator with the energy, the extent of its
  grid (the number of grid points is the shape of the array), the beam tilt, the
  antialiasing aperture and the metadata of its extra axes, each a dictionary.
\<close>

record Accelerator =
  energy :: "real option"

type_synonym axis_metadata = "(string \<times> string) list"

record Waves =
  array :: ndarray
  accelerator :: Accelerator
  extent :: "real list option"
  tilt :: "real \<times> real"
  antialias_aperture :: real
  extra_axes_metadata :: "axis_metadata list"

definition Waves_energy :: "Waves \<Rightarrow> real option" where
  "Waves_energy w = energy (accelerator w)"

text \<open>
  \<open>Waves.__init__(array, energy, extent, tilt, antialias_aperture, extra_axes_metadata)\<close>.
  The classes \<open>Grid\<close> (of \<open>abtem.basic.grid\<close>), \<open>Accelerator\<close>, \<open>BeamTilt\<close> and
  \<open>AntialiasAperture\<close> it wraps its arguments in are not among the sources; they are
  taken to keep the value they are given. The parameter \<open>sampling\<close> is left out: every
  call below leaves it at its default \<open>None\<close>.
\<close>

definition Waves_init ::
  "ndarray \<Rightarrow> real option \<Rightarrow> real list option \<Rightarrow> real \<times> real \<Rightarrow> real \<Rightarrow>
     axis_metadata list option \<Rightarrow> error + Waves"
where
  "Waves_init arr en ext tlt aperture extra =
     (if length (shape arr) < 2
      then Inl (RuntimeError ''Wave function array should be have 2 dimensions or more'')
      else Inr \<lparr>array = arr, accelerator = \<lparr>energy = en\<rparr>, extent = ext, tilt = tlt,
                antialias_aperture = aperture,
                extra_axes_metadata = (case extra of None \<Rightarrow> [] | Some ms \<Rightarrow> ms)\<rparr>)"

text \<open>
  \<open>Waves.__copy__\<close>: a new object from the array, tilt, energy and aperture (the extra
  axes are not passed on), then the grid and the accelerator are replaced by copies of the
  original's.
\<close>

definition Waves_copy :: "Waves \<Rightarrow> error + Waves" where
  "Waves_copy w =
     (case Waves_init (array w) (Waves_energy w) None (tilt w) (antialias_aperture w) None of
        Inl e \<Rightarrow> Inl e
      | Inr new_copy \<Rightarrow> Inr (new_copy\<lparr>extent := extent w, accelerator := accelerator w\<rparr>))"

subsection \<open>Multislice\<close>

text \<open>
  A potential, as far as \<open>Waves.multislice\<close> looks at it: the number of frozen phonon
  configurations and the potentials \<open>frozen_phonon_potentials()\<close> yields.
\<close>

datatype potential =
  Potential (num_frozen_phonons: nat) (frozen_phonon_potentials: "potential list")

text \<open>
  Modelled from the spec: the multislice engine (the function \<open>multislice\<close> of
  \<open>abtem.waves.multislice\<close>) is not among the sources. The specification gives its result
  as the exit wave after the last slice, with grid, energy, tilt and antialiasing
  metadata preserved unchanged and only the array content transformed. The
  transformation of the array is the parameter \<open>propagate\<close>.
\<close>

definition multislice ::
  "(ndarray \<Rightarrow> potential \<Rightarrow> nat \<Rightarrow> ndarray) \<Rightarrow> Waves \<Rightarrow> potential \<Rightarrow> nat \<Rightarrow> Waves"
where
  "multislice propagate w p splits = w\<lparr>array := propagate (array w) p splits\<rparr>"

text \<open>
  \<open>da.stack(arrays, axis=0)\<close>: a new leading axis; it needs at least one array and all
  arrays of one shape.
\<close>

definition stack :: "ndarray list \<Rightarrow> error + ndarray" where
  "stack xs =
     (if xs = [] then Inl ValueError
      else if list_ex (\<lambda>x. shape x \<noteq> shape (hd xs)) xs then Inl ValueError
      else Inr \<lparr>shape = length xs # shape (hd xs), data = concat (map data xs)\<rparr>)"

text \<open>
  The loop \<open>for p in potential.frozen_phonon_potentials()\<close>, which appends
  \<open>multislice(self.copy(), p, splits=splits)\<close> to the list of exit waves.
\<close>

fun exit_waves ::
  "(ndarray \<Rightarrow> potential \<Rightarrow> nat \<Rightarrow> ndarray) \<Rightarrow> Waves \<Rightarrow> nat \<Rightarrow> potential list \<Rightarrow> error + Waves list"
where
  "exit_waves propagate w splits [] = Inr []"
| "exit_waves propagate w splits (p # ps) =
     (case Waves_copy w of
        Inl e \<Rightarrow> Inl e
      | Inr c \<Rightarrow>
          (case exit_waves propagate w splits ps of
             Inl e \<Rightarrow> Inl e
           | Inr ws \<Rightarrow> Inr (multislice propagate c p splits # ws)))"

text \<open>
  \<open>Waves.multislice(potential, splits)\<close>. The method \<open>_validate_potential\<close> of the mixin
  is not among the sources and is the parameter \<open>validate_potential\<close>; it may raise.
\<close>

definition Waves_multislice ::
  "(Waves \<Rightarrow> potential \<Rightarrow> error + potential) \<Rightarrow> (ndarray \<Rightarrow> potential \<Rightarrow> nat \<Rightarrow> ndarray) \<Rightarrow>
     Waves \<Rightarrow> potential \<Rightarrow> nat \<Rightarrow> error + Waves"
where
  "Waves_multislice validate_potential propagate w pot splits =
     (case validate_potential w pot of
        Inl e \<Rightarrow> Inl e
      | Inr p \<Rightarrow>
          if num_frozen_phonons p = 1 then Inr (multislice propagate w p splits)
          else
            (case exit_waves propagate w splits (frozen_phonon_potentials p) of
               Inl e \<Rightarrow> Inl e
             | Inr ws \<Rightarrow>
                 (case stack (map array ws) of
                    Inl e \<Rightarrow> Inl e
                  | Inr arr \<Rightarrow>
                      Waves_init arr (Waves_energy w) (extent w) (tilt w) (2 / 3)
                        (Some ([(''label'', ''frozen_phonons''), (''type'', ''ensemble'')]
                               # extra_axes_metadata w)))))"

subsection \<open>Applying a contrast transfer function\<close>

record CTF =
  ctf_accelerator :: Accelerator

text \<open>
  Modelled from the spec: the class \<open>Accelerator\<close> of \<open>abtem.basic.energy\<close> with its
  methods \<open>match\<close> and \<open>check_is_defined\<close> is not among the sources. The specification
  says of the energies that the call fails if both define an energy and they differ, of
  \<open>match\<close> that it propagates whichever value is defined from one object to the other,
  and of a required energy that is unset that the use fails. The messages are those of
  the class \<open>Energy\<close> of \<open>bases.py\<close>.
\<close>

definition Accelerator_check_match :: "Accelerator \<Rightarrow> Accelerator \<Rightarrow> error + unit" where
  "Accelerator_check_match self other =
     (case (energy self, energy other) of
        (Some x, Some y) \<Rightarrow> if x \<noteq> y then Inl (RuntimeError ''inconsistent energies'') else Inr ()
      | _ \<Rightarrow> Inr ())"

definition Accelerator_match ::
  "Accelerator \<Rightarrow> Accelerator \<Rightarrow> bool \<Rightarrow> (error + unit) \<times> Accelerator \<times> Accelerator"
where
  "Accelerator_match self other check_match =
     (case (if check_match then Accelerator_check_match self other else Inr ()) of
        Inl e \<Rightarrow> (Inl e, self, other)
      | Inr u \<Rightarrow>
          (case (energy self, energy other) of
             (None, Some y) \<Rightarrow> (Inr (), self\<lparr>energy := Some y\<rparr>, other)
           | (Some x, None) \<Rightarrow> (Inr (), self, other\<lparr>energy := Some x\<rparr>)
           | _ \<Rightarrow> (Inr (), self, other)))"

definition Accelerator_check_is_defined :: "Accelerator \<Rightarrow> error + unit" where
  "Accelerator_check_is_defined a =
     (if energy a = None then Inl (RuntimeError ''energy is not defined'') else Inr ())"

text \<open>Python's truth value of an optional float: \<open>None\<close> and \<open>0.0\<close> are false.\<close>

definition truthy :: "real option \<Rightarrow> bool" where
  "truthy v = (case v of None \<Rightarrow> False | Some x \<Rightarrow> x \<noteq> 0)"

text \<open>
  \<open>Waves.apply_ctf(ctf, in_place)\<close>. The two calls of \<open>match\<close> mutate the accelerators of
  the wave and of the contrast transfer function, so the result comes with both objects
  as the call leaves them. \<open>ctf.evaluate_on_grid\<close> and the \<open>fft2_convolve\<close> of
  \<open>abtem.basic.fft\<close> are not among the sources and are parameters; the grid of a wave
  function is defined when its extent is (\<open>check_is_grid_defined\<close> of \<open>bases.py\<close>). The new
  object is built without an aperture, which takes the default \<open>2/3\<close>.
\<close>

definition Waves_apply_ctf ::
  "(CTF \<Rightarrow> real list option \<Rightarrow> nat list \<Rightarrow> ndarray) \<Rightarrow> (ndarray \<Rightarrow> ndarray \<Rightarrow> bool \<Rightarrow> ndarray) \<Rightarrow>
     Waves \<Rightarrow> CTF \<Rightarrow> bool \<Rightarrow> (error + Waves) \<times> Waves \<times> CTF"
where
  "Waves_apply_ctf evaluate_on_grid convolve w ctf in_place =
     (case (if \<not> truthy (energy (ctf_accelerator ctf))
            then Accelerator_match (ctf_accelerator ctf) (accelerator w) False
            else (Inr (), ctf_accelerator ctf, accelerator w)) of
        (Inl e, ca1, wa1) \<Rightarrow> (Inl e, w\<lparr>accelerator := wa1\<rparr>, ctf\<lparr>ctf_accelerator := ca1\<rparr>)
      | (Inr u, ca1, wa1) \<Rightarrow>
          (case Accelerator_match wa1 ca1 True of
             (Inl e, wa2, ca2) \<Rightarrow> (Inl e, w\<lparr>accelerator := wa2\<rparr>, ctf\<lparr>ctf_accelerator := ca2\<rparr>)
           | (Inr u, wa2, ca2) \<Rightarrow>
               (let w2 = w\<lparr>accelerator := wa2\<rparr>; ctf2 = ctf\<lparr>ctf_accelerator := ca2\<rparr> in
                case Accelerator_check_is_defined wa2 of
                  Inl e \<Rightarrow> (Inl e, w2, ctf2)
                | Inr u \<Rightarrow>
                    if extent w2 = None
                    then (Inl (RuntimeError ''grid extent is not defined''), w2, ctf2)
                    else
                      (Waves_init
                         (convolve (array w2)
                            (evaluate_on_grid ctf2 (extent w2) (drop (length (shape (array w2)) - 2) (shape (array w2))))
                            in_place)
                         (Waves_energy w2) (extent w2) (tilt w2) (2 / 3)
                         (Some (extra_axes_metadata w2)),
                       w2, ctf2))))"

section \<open>The annular detector (\<open>detect.py\<close>, class \<open>AnnularDetector\<close>)\<close>

text \<open>
  An annular detector holds its inner and its outer angle; either may be \<open>None\<close>. Its
  constructor leaves the steps of \<open>_PolarDetector\<close> at their defaults: \<open>radial_steps = 1\<close>
  and \<open>azimuthal_steps = 2 * np.pi\<close>.
\<close>

record AnnularDetector =
  inner :: "real option"
  outer :: "real option"

definition radial_steps :: real where
  "radial_steps = 1"

definition azimuthal_steps :: real where
  "azimuthal_steps = 2 * pi"

text \<open>
  \<open>_PolarDetector._get_bins(sampling, wavelength)\<close>: the angles of the detector must lie
  below \<open>max_angle\<close>, the largest scattering angle the grid captures. \<open>np.max\<close> of an empty
  sampling raises \<open>ValueError\<close>.
\<close>

definition get_bins :: "AnnularDetector \<Rightarrow> real list \<Rightarrow> real \<Rightarrow> error + real \<times> real \<times> int \<times> int" where
  "get_bins d sampling wavelength =
     (if sampling = [] then Inl ValueError
      else
        (let lo = (case inner d of None \<Rightarrow> 0 | Some i \<Rightarrow> i);
             max_angle = 1 / Max (set sampling) * wavelength / 2
         in case (case outer d of
                    None \<Rightarrow> Inr max_angle
                  | Some out \<Rightarrow> if out < max_angle then Inr out else Inl (RuntimeError [])) of
              Inl e \<Rightarrow> Inl e
            | Inr hi \<Rightarrow>
                Inr (lo, hi, \<lceil>(hi - lo) / radial_steps\<rceil>, \<lceil>2 * pi / azimuthal_steps\<rceil>)))"

text \<open>
  \<open>AnnularDetector.detect(waves)\<close> as the source has it: \<open>total = xp.ones(len(waves.array))\<close>
  and \<open>return total\<close>. The computation of the far-field intensity, of the region and of
  the quotient stands in comments only. \<open>len\<close> of an array without an axis raises
  \<open>TypeError\<close>.
\<close>

definition AnnularDetector_detect :: "AnnularDetector \<Rightarrow> Waves \<Rightarrow> error + real list" where
  "AnnularDetector_detect d waves =
     (case shape (array waves) of
        [] \<Rightarrow> Inl TypeError
      | n # ns \<Rightarrow> Inr (replicate n 1))"

subsection \<open>The far-field intensity\<close>

text \<open>
  An image is a list of rows. \<open>chunks k n xs\<close> cuts the first \<open>k\<close> blocks of length \<open>n\<close>
  from the data of an array, so \<open>chunks m n\<close> gives the rows of an \<open>m \<times> n\<close> image.
\<close>

fun chunks :: "nat \<Rightarrow> nat \<Rightarrow> 'a list \<Rightarrow> 'a list list" where
  "chunks 0 n xs = []"
| "chunks (Suc k) n xs = take n xs # chunks k n (drop n xs)"

text \<open>
  \<open>np.fft.fftshift\<close> along one axis of length \<open>n\<close> rolls the axis by \<open>n // 2\<close>: the entry
  at index \<open>i\<close> moves to index \<open>(i + n // 2) mod n\<close>. On an image it shifts both axes.
\<close>

definition fftshift1 :: "'a list \<Rightarrow> 'a list" where
  "fftshift1 xs = rotate (length xs - length xs div 2) xs"

definition fftshift :: "'a list list \<Rightarrow> 'a list list" where
  "fftshift rows = fftshift1 (map fftshift1 rows)"

text \<open>
  \<open>crop_to_center\<close>: the slice \<open>[left:right]\<close> along one axis, with \<open>w\<close> half the length of
  the axis, and the two slices of an image.
\<close>

definition crop_axis :: "'a list \<Rightarrow> 'a list" where
  "crop_axis xs =
     (let w = length xs div 2;
          left = w - w div 2;
          right = w + (w - w div 2)
      in take (right - left) (drop left xs))"

definition crop_to_center :: "'a list list \<Rightarrow> 'a list list" where
  "crop_to_center rows = crop_axis (map crop_axis rows)"

text \<open>
  The transform \<open>mkl_fft.fft2\<close> of an external library is the two-dimensional discrete
  Fourier transform of an image of \<open>m\<close> rows and \<open>n\<close> columns,
  \<open>A[k, l] = \<Sum>p<m. \<Sum>q<n. a[p, q] * exp(-2\<pi>i (k p / m + l q / n))\<close>; \<open>abs2\<close> is the squared
  modulus.
\<close>

definition dft2 :: "complex list list \<Rightarrow> complex list list" where
  "dft2 a =
     (let m = length a; n = (if a = [] then 0 else length (hd a)) in
      map (\<lambda>k. map (\<lambda>l.
             (\<Sum>p<m. \<Sum>q<n. a ! p ! q *
                cis (- (2 * pi * (real k * real p / real m + real l * real q / real n))))) [0..<n])
        [0..<m])"

definition abs2 :: "complex \<Rightarrow> real" where
  "abs2 z = (cmod z)\<^sup>2"

text \<open>
  \<open>calculate_far_field_intensity(waves)\<close> on the array of the wave functions, with
  \<open>overwrite=False\<close>, which leaves the array as it is: the transform of each image (the
  function \<open>fft2\<close> of \<open>device.py\<close> takes an image or a stack of images and raises
  \<open>NotImplementedError\<close> for any other array), shifted, cropped to its centre and squared.
  The result is given as the list of the images; for a single image numpy returns it
  without the leading axis.
\<close>

definition far_field :: "complex list list \<Rightarrow> real list list" where
  "far_field a = map (map abs2) (crop_to_center (fftshift (dft2 a)))"

definition calculate_far_field_intensity :: "ndarray \<Rightarrow> error + real list list list" where
  "calculate_far_field_intensity x =
     (case shape x of
        [m, n] \<Rightarrow> Inr [far_field (chunks m n (data x))]
      | [k, m, n] \<Rightarrow> Inr (map (\<lambda>b. far_field (chunks m n b)) (chunks k (m * n) (data x)))
      | _ \<Rightarrow> Inl NotImplementedError)"

subsection \<open>The fraction the specification describes\<close>

text \<open>
  The spatial frequencies of an axis of \<open>n\<close> points with the sampling \<open>d\<close>, as
  \<open>np.fft.fftfreq(n, d)\<close> gives them, and the scattering angle \<open>|k| * wavelength\<close> of each
  pixel of the far-field intensity: the angles go through the shift and the crop of the
  intensity, so that every pixel keeps its own.
\<close>

definition fftfreq :: "nat \<Rightarrow> real \<Rightarrow> real list" where
  "fftfreq n d =
     map (\<lambda>i. (if i < (n + 1) div 2 then real i else real i - real n) / (real n * d)) [0..<n]"

definition scattering_angles :: "nat \<Rightarrow> nat \<Rightarrow> real list \<Rightarrow> real \<Rightarrow> real list list" where
  "scattering_angles m n sampling wavelength =
     crop_to_center (fftshift
       (map (\<lambda>kx. map (\<lambda>ky. sqrt (kx\<^sup>2 + ky\<^sup>2) * wavelength) (fftfreq n (sampling ! 1)))
          (fftfreq m (sampling ! 0))))"

text \<open>
  The quantity of the specification, in its words, for comparison with the code: for each
  wave function the sum of the far-field intensity over the pixels whose scattering angle
  lies in the annular bin \<open>[inner, outer)\<close>, divided by the total far-field intensity. The
  bin is the one \<open>_get_bins\<close> returns for the sampling of the grid and the wavelength.
\<close>

definition annular_fraction :: "real \<Rightarrow> real \<Rightarrow> real list list \<Rightarrow> real list list \<Rightarrow> real" where
  "annular_fraction lo hi angles intensity =
     sum_list (map2 (\<lambda>alpha v. if lo \<le> alpha \<and> alpha < hi then v else 0)
                 (concat angles) (concat intensity))
       / sum_list (concat intensity)"

definition annular_fractions ::
  "AnnularDetector \<Rightarrow> ndarray \<Rightarrow> real list \<Rightarrow> real \<Rightarrow> error + real list"
where
  "annular_fractions d x sampling wavelength =
     (case get_bins d sampling wavelength of
        Inl e \<Rightarrow> Inl e
      | Inr (lo, hi, nbins_radial, nbins_azimuthal) \<Rightarrow>
          (case calculate_far_field_intensity x of
             Inl e \<Rightarrow> Inl e
           | Inr images \<Rightarrow>
               Inr (map (annular_fraction lo hi
                           (scattering_angles (shape x ! (length (shape x) - 2))
                              (shape x ! (length (shape x) - 1)) sampling wavelength))
                      images)))"

section \<open>Grid properties and grids (\<open>bases.py\<close>, classes \<open>GridProperty\<close> and \<open>Grid\<close>)\<close>

subsection \<open>Values and numpy arithmetic\<close>

text \<open>
  The values the code passes around: \<open>None\<close>, a Python number, a Python list or tuple,
  and a numpy array. The value a grid property stores is \<open>None\<close> or an array.
\<close>

datatype pyval = PNone | PNum real | PList "real list" | PArr "real list"

datatype dtype = DInt | DFloat

text \<open>\<open>astype(np.int)\<close> truncates a float towards zero; \<open>astype\<close> of a float array to float keeps it.\<close>

definition astype_int :: "real \<Rightarrow> int" where
  "astype_int x = (if 0 \<le> x then \<lfloor>x\<rfloor> else \<lceil>x\<rceil>)"

definition astype :: "dtype \<Rightarrow> real \<Rightarrow> real" where
  "astype t x = (case t of DInt \<Rightarrow> of_int (astype_int x) | DFloat \<Rightarrow> x)"

definition to_py :: "real list option \<Rightarrow> pyval" where
  "to_py v = (case v of None \<Rightarrow> PNone | Some xs \<Rightarrow> PArr xs)"

definition ebind :: "error + 'a \<Rightarrow> ('a \<Rightarrow> error + 'b) \<Rightarrow> error + 'b" where
  "ebind m f = (case m of Inl e \<Rightarrow> Inl e | Inr x \<Rightarrow> f x)"

text \<open>
  numpy's broadcasting of two one-dimensional operands: equal lengths go elementwise, a
  length of one is stretched, anything else is a \<open>ValueError\<close>.
\<close>

definition broadcast :: "(real \<Rightarrow> real \<Rightarrow> real) \<Rightarrow> real list \<Rightarrow> real list \<Rightarrow> error + real list" where
  "broadcast f xs ys =
     (if length xs = length ys then Inr (map2 f xs ys)
      else if length xs = 1 then Inr (map (f (hd xs)) ys)
      else if length ys = 1 then Inr (map (\<lambda>x. f x (hd ys)) xs)
      else Inl ValueError)"

text \<open>
  A binary arithmetic operator of Python (\<open>-\<close>, \<open>*\<close>, \<open>/\<close>, \<open>+\<close>) on two values. With an
  array on one side numpy computes the result, taking a list or a number on the other
  side; two numbers give a number; \<open>None\<close> on either side is a \<open>TypeError\<close>, and so is a
  list with a number (the code only ever subtracts \<open>1\<close> from a list: in every product
  and quotient it forms, one operand is the value of a property, an array or \<open>None\<close>).
  Division by zero yields \<open>inf\<close> or \<open>nan\<close> in numpy and no exception; the model has HOL's
  \<open>x / 0 = 0\<close> there, so statements about quotients assume divisors that are not zero.
\<close>

fun binop :: "(real \<Rightarrow> real \<Rightarrow> real) \<Rightarrow> pyval \<Rightarrow> pyval \<Rightarrow> error + pyval" where
  "binop f (PArr xs) (PArr ys) = map_sum id PArr (broadcast f xs ys)"
| "binop f (PArr xs) (PList ys) = map_sum id PArr (broadcast f xs ys)"
| "binop f (PList xs) (PArr ys) = map_sum id PArr (broadcast f xs ys)"
| "binop f (PArr xs) (PNum y) = Inr (PArr (map (\<lambda>x. f x y) xs))"
| "binop f (PNum x) (PArr ys) = Inr (PArr (map (f x) ys))"
| "binop f (PNum x) (PNum y) = Inr (PNum (f x y))"
| "binop f a b = Inl TypeError"

text \<open>\<open>np.ceil(x).astype(np.int)\<close>.\<close>

fun ceil_int :: "pyval \<Rightarrow> error + pyval" where
  "ceil_int (PArr xs) = Inr (PArr (map (\<lambda>x. of_int \<lceil>x\<rceil>) xs))"
| "ceil_int (PList xs) = Inr (PArr (map (\<lambda>x. of_int \<lceil>x\<rceil>) xs))"
| "ceil_int (PNum x) = Inr (PNum (of_int \<lceil>x\<rceil>))"
| "ceil_int PNone = Inl TypeError"

text \<open>
  \<open>np.any(old != value)\<close> of the decorator \<open>notify\<close>. Against \<open>None\<close> an array compares
  elementwise unequal; two arrays that cannot be broadcast compare unequal as a whole
  (the numpy that still has \<open>np.int\<close> warns and returns \<open>True\<close>).
\<close>

definition any_ne :: "real list \<Rightarrow> real list \<Rightarrow> bool" where
  "any_ne xs ys =
     (if length xs = length ys then list_ex (\<lambda>(x, y). x \<noteq> y) (zip xs ys)
      else if length xs = 1 then list_ex (\<lambda>y. hd xs \<noteq> y) ys
      else if length ys = 1 then list_ex (\<lambda>x. x \<noteq> hd ys) xs
      else True)"

fun np_any_ne :: "pyval \<Rightarrow> pyval \<Rightarrow> bool" where
  "np_any_ne PNone PNone = False"
| "np_any_ne PNone (PArr ys) = (ys \<noteq> [])"
| "np_any_ne PNone b = True"
| "np_any_ne (PArr xs) PNone = (xs \<noteq> [])"
| "np_any_ne (PArr xs) (PNum y) = list_ex (\<lambda>x. x \<noteq> y) xs"
| "np_any_ne (PArr xs) (PList ys) = any_ne xs ys"
| "np_any_ne (PArr xs) (PArr ys) = any_ne xs ys"
| "np_any_ne (PNum x) (PNum y) = (x \<noteq> y)"
| "np_any_ne (PNum x) (PArr ys) = list_ex (\<lambda>y. x \<noteq> y) ys"
| "np_any_ne (PList xs) (PArr ys) = any_ne xs ys"
| "np_any_ne (PList xs) (PList ys) = (xs \<noteq> ys)"
| "np_any_ne a b = True"

subsection \<open>\<open>GridProperty\<close>\<close>

record GridProperty =
  gp_value :: "real list option"
  gp_locked :: bool
  gp_dtype :: dtype
  gp_dimensions :: nat

text \<open>\<open>GridProperty._validate\<close>.\<close>

fun validate :: "GridProperty \<Rightarrow> pyval \<Rightarrow> error + real list option" where
  "validate p (PArr xs) =
     (if length xs \<noteq> gp_dimensions p then Inl (RuntimeError ''grid value length of {} != {}'')
      else Inr (Some (map (astype (gp_dtype p)) xs)))"
| "validate p (PList xs) =
     (if length xs \<noteq> gp_dimensions p then Inl (RuntimeError ''grid value length of {} != {}'')
      else Inr (Some (map (astype (gp_dtype p)) xs)))"
| "validate p (PNum x) = Inr (Some (replicate (gp_dimensions p) (astype (gp_dtype p) x)))"
| "validate p PNone = Inr None"

definition GridProperty_init :: "pyval \<Rightarrow> dtype \<Rightarrow> bool \<Rightarrow> nat \<Rightarrow> error + GridProperty" where
  "GridProperty_init v t lck d =
     (case validate \<lparr>gp_value = None, gp_locked = lck, gp_dtype = t, gp_dimensions = d\<rparr> v of
        Inl e \<Rightarrow> Inl e
      | Inr x \<Rightarrow> Inr \<lparr>gp_value = x, gp_locked = lck, gp_dtype = t, gp_dimensions = d\<rparr>)"

text \<open>
  The setter of \<open>GridProperty.value\<close>: the result and the property as the call leaves
  it.
\<close>

definition GridProperty_set_value :: "GridProperty \<Rightarrow> pyval \<Rightarrow> (error + unit) \<times> GridProperty" where
  "GridProperty_set_value p v =
     (if gp_locked p then (Inl (RuntimeError ''grid property locked''), p)
      else (case validate p v of
              Inl e \<Rightarrow> (Inl e, p)
            | Inr x \<Rightarrow> (Inr (), p\<lparr>gp_value := x\<rparr>)))"

subsection \<open>\<open>Grid\<close>: the derived values\<close>

record Grid =
  extent_property :: GridProperty
  gpts_property :: GridProperty
  sampling_property :: GridProperty
  dimensions :: nat
  endpoint :: bool

definition adjusted_extent :: "bool \<Rightarrow> pyval \<Rightarrow> pyval \<Rightarrow> error + pyval" where
  "adjusted_extent ep gpts sampling =
     (if ep then ebind (binop (-) gpts (PNum 1)) (\<lambda>g1. binop (*) g1 sampling)
      else binop (*) gpts sampling)"

definition adjusted_gpts :: "bool \<Rightarrow> pyval \<Rightarrow> pyval \<Rightarrow> error + pyval" where
  "adjusted_gpts ep ext sampling =
     (if ep then ebind (binop (/) ext sampling) (\<lambda>q. ebind (ceil_int q) (\<lambda>c. binop (+) c (PNum 1)))
      else ebind (binop (/) ext sampling) ceil_int)"

definition adjusted_sampling :: "bool \<Rightarrow> pyval \<Rightarrow> pyval \<Rightarrow> error + pyval" where
  "adjusted_sampling ep ext gpts =
     (if ep then ebind (binop (-) gpts (PNum 1)) (\<lambda>g1. binop (/) ext g1)
      else binop (/) ext gpts)"

text \<open>
  The three property getters call one another. With all three properties locked the
  calls never end, and Python raises \<open>RecursionError\<close> when its stack is exhausted: the
  getters take the depth that is left. The getter of \<open>gpts\<close> is as the source has it:
  with extent and sampling locked it returns \<open>_adjusted_sampling(self.extent,
  self.sampling)\<close>.
\<close>

fun extent_get :: "nat \<Rightarrow> Grid \<Rightarrow> error + pyval"
  and gpts_get :: "nat \<Rightarrow> Grid \<Rightarrow> error + pyval"
  and sampling_get :: "nat \<Rightarrow> Grid \<Rightarrow> error + pyval"
where
  "extent_get 0 g = Inl RecursionError"
| "extent_get (Suc n) g =
     (if gp_locked (gpts_property g) \<and> gp_locked (sampling_property g)
      then ebind (gpts_get n g) (\<lambda>gp. ebind (sampling_get n g) (\<lambda>sm.
             adjusted_extent (endpoint g) gp sm))
      else Inr (to_py (gp_value (extent_property g))))"
| "gpts_get 0 g = Inl RecursionError"
| "gpts_get (Suc n) g =
     (if gp_locked (extent_property g) \<and> gp_locked (sampling_property g)
      then ebind (extent_get n g) (\<lambda>ex. ebind (sampling_get n g) (\<lambda>sm.
             adjusted_sampling (endpoint g) ex sm))
      else Inr (to_py (gp_value (gpts_property g))))"
| "sampling_get 0 g = Inl RecursionError"
| "sampling_get (Suc n) g =
     (if gp_locked (extent_property g) \<and> gp_locked (gpts_property g)
      then ebind (extent_get n g) (\<lambda>ex. ebind (gpts_get n g) (\<lambda>gp.
             adjusted_sampling (endpoint g) ex gp))
      else Inr (to_py (gp_value (sampling_property g))))"

definition recursion_limit :: nat where
  "recursion_limit = 1000"

definition Grid_extent :: "Grid \<Rightarrow> error + pyval" where
  "Grid_extent g = extent_get recursion_limit g"

definition Grid_gpts :: "Grid \<Rightarrow> error + pyval" where
  "Grid_gpts g = gpts_get recursion_limit g"

definition Grid_sampling :: "Grid \<Rightarrow> error + pyval" where
  "Grid_sampling g = sampling_get recursion_limit g"

subsection \<open>\<open>Grid\<close>: the setters\<close>

text \<open>
  A method that mutates the grid and may raise: from the grid to the result and the grid
  as the call leaves it.
\<close>

type_synonym 'a grid_method = "Grid \<Rightarrow> (error + 'a) \<times> Grid"

definition gret :: "'a \<Rightarrow> 'a grid_method" where
  "gret x = (\<lambda>g. (Inr x, g))"

definition graise :: "error \<Rightarrow> 'a grid_method" where
  "graise e = (\<lambda>g. (Inl e, g))"

definition glift :: "error + 'a \<Rightarrow> 'a grid_method" where
  "glift r = (\<lambda>g. (r, g))"

definition gread :: "(Grid \<Rightarrow> error + 'a) \<Rightarrow> 'a grid_method" where
  "gread f = (\<lambda>g. (f g, g))"

definition gbind :: "'a grid_method \<Rightarrow> ('a \<Rightarrow> 'b grid_method) \<Rightarrow> 'b grid_method" where
  "gbind m f = (\<lambda>g. case m g of (Inl e, g') \<Rightarrow> (Inl e, g') | (Inr x, g') \<Rightarrow> f x g')"

text \<open>The assignments \<open>self._extent.value = v\<close>, \<open>self._gpts.value = v\<close>, \<open>self._sampling.value = v\<close>.\<close>

definition set_extent_value :: "pyval \<Rightarrow> unit grid_method" where
  "set_extent_value v =
     (\<lambda>g. case GridProperty_set_value (extent_property g) v of
             (r, p) \<Rightarrow> (r, g\<lparr>extent_property := p\<rparr>))"

definition set_gpts_value :: "pyval \<Rightarrow> unit grid_method" where
  "set_gpts_value v =
     (\<lambda>g. case GridProperty_set_value (gpts_property g) v of
             (r, p) \<Rightarrow> (r, g\<lparr>gpts_property := p\<rparr>))"

definition set_sampling_value :: "pyval \<Rightarrow> unit grid_method" where
  "set_sampling_value v =
     (\<lambda>g. case GridProperty_set_value (sampling_property g) v of
             (r, p) \<Rightarrow> (r, g\<lparr>sampling_property := p\<rparr>))"

text \<open>
  The bodies of the three setters. The operators \<open>|\<close> and \<open>&\<close> of the conditions
  evaluate both sides, so a getter in a condition is called (and may raise) whatever the
  other operands are; where the branch reads the same property again from the unchanged
  grid, the model uses the value the condition read.
\<close>

definition extent_setter :: "pyval \<Rightarrow> unit grid_method" where
  "extent_setter v = (\<lambda>g.
     if gp_locked (gpts_property g) \<and> gp_locked (sampling_property g)
     then graise (RuntimeError []) g
     else
       gbind (gread Grid_gpts) (\<lambda>gp.
         if \<not> (gp_locked (sampling_property g) \<or> v = PNone \<or> gp = PNone)
         then gbind (glift (adjusted_sampling (endpoint g) v gp)) (\<lambda>sm.
              gbind (set_sampling_value sm) (\<lambda>u. set_extent_value v))
         else
           gbind (gread Grid_sampling) (\<lambda>sm.
             if \<not> (gp_locked (gpts_property g) \<or> v = PNone \<or> sm = PNone)
             then gbind (glift (adjusted_gpts (endpoint g) v sm)) (\<lambda>n.
                  gbind (set_gpts_value n) (\<lambda>u.
                  gbind (gread Grid_gpts) (\<lambda>gp2.
                  gbind (glift (adjusted_sampling (endpoint g) v gp2)) (\<lambda>sm2.
                  gbind (set_sampling_value sm2) (\<lambda>u. set_extent_value v)))))
             else set_extent_value v)) g)"

definition gpts_setter :: "pyval \<Rightarrow> unit grid_method" where
  "gpts_setter v = (\<lambda>g.
     if gp_locked (extent_property g) \<and> gp_locked (sampling_property g)
     then graise (RuntimeError []) g
     else
       gbind (gread Grid_extent) (\<lambda>ex.
         if \<not> (gp_locked (sampling_property g) \<or> ex = PNone \<or> v = PNone)
         then gbind (glift (adjusted_sampling (endpoint g) ex v)) (\<lambda>sm.
              gbind (set_sampling_value sm) (\<lambda>u. set_gpts_value v))
         else
           gbind (gread Grid_sampling) (\<lambda>sm.
             if \<not> (gp_locked (extent_property g) \<or> v = PNone \<or> sm = PNone)
             then gbind (glift (adjusted_extent (endpoint g) v sm)) (\<lambda>e2.
                  gbind (set_extent_value e2) (\<lambda>u. set_gpts_value v))
             else set_gpts_value v)) g)"

definition sampling_setter :: "pyval \<Rightarrow> unit grid_method" where
  "sampling_setter v = (\<lambda>g.
     if gp_locked (gpts_property g) \<and> gp_locked (extent_property g)
     then graise (RuntimeError []) g
     else
       gbind (gread Grid_extent) (\<lambda>ex.
         if \<not> (gp_locked (gpts_property g) \<or> ex = PNone \<or> v = PNone)
         then gbind (glift (adjusted_gpts (endpoint g) ex v)) (\<lambda>n.
              gbind (set_gpts_value n) (\<lambda>u.
              gbind (gread Grid_extent) (\<lambda>ex2.
              gbind (gread Grid_gpts) (\<lambda>gp2.
              gbind (glift (adjusted_sampling (endpoint g) ex2 gp2)) (\<lambda>v2.
              set_sampling_value v2)))))
         else
           gbind (gread Grid_gpts) (\<lambda>gp.
             if \<not> (gp_locked (extent_property g) \<or> gp = PNone \<or> v = PNone)
             then gbind (glift (adjusted_extent (endpoint g) gp v)) (\<lambda>e2.
                  gbind (set_extent_value e2) (\<lambda>u. set_sampling_value v))
             else set_sampling_value v)) g)"

text \<open>
  The decorator \<open>notify\<close> around a setter: it reads the old value with the getter, runs
  the setter, and sends the message with the name and the change to the observers. The
  result of the decorated setter is that message.
\<close>

definition notify ::
  "string \<Rightarrow> (Grid \<Rightarrow> error + pyval) \<Rightarrow> (pyval \<Rightarrow> unit grid_method) \<Rightarrow> pyval \<Rightarrow> message grid_method"
where
  "notify name getter func v =
     gbind (gread getter) (\<lambda>old.
     gbind (func v) (\<lambda>u.
     gret \<lparr>notifier = name, change = np_any_ne old v\<rparr>))"

definition Grid_set_extent :: "pyval \<Rightarrow> message grid_method" where
  "Grid_set_extent = notify ''extent'' Grid_extent extent_setter"

definition Grid_set_gpts :: "pyval \<Rightarrow> message grid_method" where
  "Grid_set_gpts = notify ''gpts'' Grid_gpts gpts_setter"

definition Grid_set_sampling :: "pyval \<Rightarrow> message grid_method" where
  "Grid_set_sampling = notify ''sampling'' Grid_sampling sampling_setter"

subsection \<open>\<open>Grid.__init__\<close>\<close>

text \<open>
  An argument of the constructor is a plain value, wrapped in a new unlocked grid property
  of the type of the argument's position, or a \<open>GridProperty\<close>, taken as it is.
\<close>

datatype ctor_arg = Raw pyval | Prop GridProperty

definition make_property :: "ctor_arg \<Rightarrow> dtype \<Rightarrow> nat \<Rightarrow> error + GridProperty" where
  "make_property a t d = (case a of Prop p \<Rightarrow> Inr p | Raw v \<Rightarrow> GridProperty_init v t False d)"

definition arg_is_not_None :: "ctor_arg \<Rightarrow> bool" where
  "arg_is_not_None a = (a \<noteq> Raw PNone)"

text \<open>The five conditional assignments of the constructor, on the grid under construction.\<close>

definition init_body :: "ctor_arg \<Rightarrow> ctor_arg \<Rightarrow> unit grid_method" where
  "init_body ext_arg gpts_arg = (\<lambda>g0.
     gbind (gread Grid_extent) (\<lambda>ex.
     gbind (if ex = PNone
            then gbind (gread Grid_gpts) (\<lambda>gp. gbind (gread Grid_sampling) (\<lambda>sm.
                   if \<not> (gp = PNone \<or> sm = PNone)
                   then gbind (glift (adjusted_extent (endpoint g0) gp sm)) set_extent_value
                   else gret ()))
            else gret ()) (\<lambda>u.
     gbind (gread Grid_gpts) (\<lambda>gp.
     gbind (if gp = PNone
            then gbind (gread Grid_extent) (\<lambda>ex. gbind (gread Grid_sampling) (\<lambda>sm.
                   if \<not> (ex = PNone \<or> sm = PNone)
                   then gbind (glift (adjusted_gpts (endpoint g0) ex sm)) set_gpts_value
                   else gret ()))
            else gret ()) (\<lambda>u.
     gbind (gread Grid_sampling) (\<lambda>sm.
     gbind (if sm = PNone
            then gbind (gread Grid_extent) (\<lambda>ex. gbind (gread Grid_gpts) (\<lambda>gp.
                   if \<not> (ex = PNone \<or> gp = PNone)
                   then gbind (glift (adjusted_sampling (endpoint g0) ex gp)) set_sampling_value
                   else gret ()))
            else gret ()) (\<lambda>u.
     gbind (gread Grid_gpts) (\<lambda>gp.
     gbind (if arg_is_not_None ext_arg \<and> gp \<noteq> PNone
            then gbind (gread Grid_extent) (\<lambda>ex. gbind (gread Grid_gpts) (\<lambda>gp.
                   gbind (glift (adjusted_sampling (endpoint g0) ex gp)) set_sampling_value))
            else gret ()) (\<lambda>u.
     gbind (gread Grid_extent) (\<lambda>ex.
     if arg_is_not_None gpts_arg \<and> ex \<noteq> PNone
     then gbind (gread Grid_extent) (\<lambda>ex. gbind (gread Grid_gpts) (\<lambda>gp.
            gbind (glift (adjusted_sampling (endpoint g0) ex gp)) set_sampling_value))
     else gret ()))))))))) g0)"

definition Grid_init :: "ctor_arg \<Rightarrow> ctor_arg \<Rightarrow> ctor_arg \<Rightarrow> nat \<Rightarrow> bool \<Rightarrow> error + Grid" where
  "Grid_init ext_arg gpts_arg sampling_arg d ep =
     ebind (make_property ext_arg DFloat d) (\<lambda>pe.
     ebind (make_property gpts_arg DInt d) (\<lambda>pg.
     ebind (make_property sampling_arg DFloat d) (\<lambda>ps.
       (case init_body ext_arg gpts_arg
               \<lparr>extent_property = pe, gpts_property = pg, sampling_property = ps,
                dimensions = d, endpoint = ep\<rparr> of
          (Inl e, g) \<Rightarrow> Inl e
        | (Inr u, g) \<Rightarrow> Inr g))))"

subsection \<open>Matching two grids\<close>






subsection \<open>Well-formed grids and the relation between the three values\<close>

text \<open>
  A grid as the constructor builds it from plain values, or around the shape of an array:
  each property has the dimensions of the grid, extent and sampling are floats and gpts
  are integers.
\<close>

definition standard_grid :: "Grid \<Rightarrow> bool" where
  "standard_grid g =
     (gp_dimensions (extent_property g) = dimensions g \<and>
      gp_dimensions (gpts_property g) = dimensions g \<and>
      gp_dimensions (sampling_property g) = dimensions g \<and>
      gp_dtype (extent_property g) = DFloat \<and>
      gp_dtype (gpts_property g) = DInt \<and>
      gp_dtype (sampling_property g) = DFloat)"

text \<open>
  The number of grid points must exceed \<open>min_gpts\<close> for the quotients \<open>extent / gpts\<close> and
  \<open>extent / (gpts - 1)\<close> to have a divisor that is not zero.
\<close>

definition min_gpts :: "bool \<Rightarrow> real" where
  "min_gpts ep = (if ep then 1 else 0)"

text \<open>
  A value for a property of a grid of dimension \<open>d\<close> whose components exceed \<open>lb\<close>: a
  number, or a list or an array of length \<open>d\<close>; and the vector it stands for.
\<close>

fun value_above :: "nat \<Rightarrow> real \<Rightarrow> pyval \<Rightarrow> bool" where
  "value_above d lb (PArr xs) = (length xs = d \<and> list_all (\<lambda>x. lb < x) xs)"
| "value_above d lb (PList xs) = (length xs = d \<and> list_all (\<lambda>x. lb < x) xs)"
| "value_above d lb (PNum x) = (lb < x)"
| "value_above d lb PNone = False"

fun vec :: "nat \<Rightarrow> pyval \<Rightarrow> real list" where
  "vec d (PArr xs) = xs"
| "vec d (PList xs) = xs"
| "vec d (PNum x) = replicate d x"
| "vec d PNone = []"

text \<open>A Python list or tuple, which has no arithmetic with a number.\<close>

fun is_list :: "pyval \<Rightarrow> bool" where
  "is_list (PList xs) = True"
| "is_list v = False"

definition whole :: "pyval \<Rightarrow> bool" where
  "whole v = list_all (\<lambda>x. of_int \<lfloor>x\<rfloor> = x) (vec 1 v)"

text \<open>
  All three values are stored, with the length of the dimensions, extent and sampling
  positive and gpts above \<open>min_gpts\<close>.
\<close>

definition positive_grid :: "Grid \<Rightarrow> bool" where
  "positive_grid g =
     (standard_grid g \<and>
      value_above (dimensions g) 0 (to_py (gp_value (extent_property g))) \<and>
      value_above (dimensions g) (min_gpts (endpoint g)) (to_py (gp_value (gpts_property g))) \<and>
      value_above (dimensions g) 0 (to_py (gp_value (sampling_property g))))"

text \<open>
  The relation of the claim on the stored values: \<open>extent = gpts * sampling\<close>
  componentwise, and \<open>extent = (gpts - 1) * sampling\<close> for a grid with its endpoint.
\<close>

definition consistent :: "Grid \<Rightarrow> bool" where
  "consistent g =
     (case (gp_value (extent_property g), gp_value (gpts_property g),
            gp_value (sampling_property g)) of
        (Some ex, Some gp, Some sm) \<Rightarrow>
          length gp = length sm \<and>
          ex = map2 (\<lambda>n s. if endpoint g then (n - 1) * s else n * s) gp sm
      | _ \<Rightarrow> False)"

subsection \<open>Sequences of setter calls\<close>

text \<open>
  A call of one of the three setters, and a program that makes a sequence of such calls
  on one grid, going on after a call that raised (the grid is then as that call left
  it).
\<close>

datatype setter_call = SetExtent pyval | SetGpts pyval | SetSampling pyval

fun call :: "setter_call \<Rightarrow> message grid_method" where
  "call (SetExtent v) = Grid_set_extent v"
| "call (SetGpts v) = Grid_set_gpts v"
| "call (SetSampling v) = Grid_set_sampling v"

fun run_calls :: "setter_call list \<Rightarrow> Grid \<Rightarrow> Grid" where
  "run_calls [] g = g"
| "run_calls (c # cs) g = run_calls cs (snd (call c g))"

text \<open>
  A call with a defined value for a grid of dimension \<open>d\<close>: positive components for extent
  and sampling, whole numbers above \<open>min_gpts\<close> for gpts.
\<close>

fun positive_call :: "nat \<Rightarrow> bool \<Rightarrow> setter_call \<Rightarrow> bool" where
  "positive_call d ep (SetExtent v) = value_above d 0 v"
| "positive_call d ep (SetGpts v) = (value_above d (min_gpts ep) v \<and> whole v)"
| "positive_call d ep (SetSampling v) = value_above d 0 v"

subsection \<open>Grids that can be matched\<close>



subsection \<open>The locks of a grid\<close>



chapter \<open>Properties\<close>

section \<open>Properties of the cache\<close>

lemma set_collect_pop:
  "distinct (map fst cc) \<Longrightarrow> k \<in> set (collect_pop name cc) \<longleftrightarrow> purged name (map_of cc k)"
proof (induction cc)
  case Nil
  then show ?case by simp
next
  case (Cons entry cc)
  obtain key conditions where entry: "entry = (key, conditions)" by (cases entry)
  from Cons.prems entry have fresh: "key \<notin> fst ` set cc" and dist: "distinct (map fst cc)"
    by auto
  have absent: "k = key \<Longrightarrow> k \<notin> set (collect_pop name cc)"
    using Cons.IH [OF dist] fresh by (simp add: map_of_eq_None_iff [THEN iffD2])
  show ?case
    using Cons.IH [OF dist] absent entry
    by (cases conditions) auto
qed

lemma cache_pop_keys:
  "map_of (cache (pop_keys keys c)) k = (if k \<in> set keys then None else map_of (cache c) k)"
  by (induction keys arbitrary: c) (auto simp: delete_conv')

lemma conditions_pop_keys:
  "map_of (clear_conditions (pop_keys keys c)) k =
     (if k \<in> set keys then None else map_of (clear_conditions c) k)"
  by (induction keys arbitrary: c) (auto simp: delete_conv')

text \<open>
  C5. On a notification for property \<open>P\<close> that reports a change, the cache entries that
  are gone afterwards are exactly those whose clear condition is \<open>None\<close> or contains \<open>P\<close>;
  every other entry, in particular each one whose condition set excludes \<open>P\<close>, is still
  there with its data and its condition. On a notification that reports no change the
  cache is as it was.
\<close>

theorem Cache_notify_purges:
  assumes "distinct (map fst (clear_conditions c))"
  shows "(change m \<longrightarrow>
            map_of (cache (Cache_notify c m)) k =
              (if purged (notifier m) (map_of (clear_conditions c) k) then None
               else map_of (cache c) k) \<and>
            map_of (clear_conditions (Cache_notify c m)) k =
              (if purged (notifier m) (map_of (clear_conditions c) k) then None
               else map_of (clear_conditions c) k)) \<and>
         (\<not> change m \<longrightarrow> Cache_notify c m = c)"
  using assms
  by (simp add: Cache_notify_def cache_pop_keys conditions_pop_keys set_collect_pop)

text \<open>
  A cache with three entries, notified of a change of \<open>extent\<close>: the entry without a
  condition and the one that names \<open>extent\<close> are purged, the one that names only \<open>gpts\<close>
  stays.
\<close>

theorem Cache_notify_purges_witness:
  "distinct (map fst
      (clear_conditions
        \<lparr>cache = [(''a'', 1::nat), (''b'', 2), (''c'', 3)],
         clear_conditions = [(''a'', None), (''b'', Some [''extent'']), (''c'', Some [''gpts''])]\<rparr>)) \<and>
   map_of (cache (Cache_notify
        \<lparr>cache = [(''a'', 1::nat), (''b'', 2), (''c'', 3)],
         clear_conditions = [(''a'', None), (''b'', Some [''extent'']), (''c'', Some [''gpts''])]\<rparr>
        \<lparr>notifier = ''extent'', change = True\<rparr>)) ''c'' = Some 3 \<and>
   map_of (cache (Cache_notify
        \<lparr>cache = [(''a'', 1::nat), (''b'', 2), (''c'', 3)],
         clear_conditions = [(''a'', None), (''b'', Some [''extent'']), (''c'', Some [''gpts''])]\<rparr>
        \<lparr>notifier = ''extent'', change = True\<rparr>)) ''b'' = None"
  using
    Cache_notify_purges [of
      "\<lparr>cache = [(''a'', 1::nat), (''b'', 2), (''c'', 3)],
        clear_conditions = [(''a'', None), (''b'', Some [''extent'']), (''c'', Some [''gpts''])]\<rparr>"
      "\<lparr>notifier = ''extent'', change = True\<rparr>" "''c''"]
    Cache_notify_purges [of
      "\<lparr>cache = [(''a'', 1::nat), (''b'', 2), (''c'', 3)],
        clear_conditions = [(''a'', None), (''b'', Some [''extent'']), (''c'', Some [''gpts''])]\<rparr>"
      "\<lparr>notifier = ''extent'', change = True\<rparr>" "''b''"]
  by simp

section \<open>Properties of the convolution\<close>

text \<open>
  C9. Called with \<open>overwrite_x=False\<close> on a two-dimensional array and a kernel of the
  shape of its transform, \<open>fft2_convolve\<close> returns a new array holding the inverse
  transform of the elementwise product of the forward transform with the kernel, and the
  array it was given is unchanged. Called with \<open>overwrite_x=False\<close> on an array of three
  or more dimensions it raises \<open>ValueError\<close>, whatever the kernel; the array it was
  given is unchanged there too.
\<close>

theorem fft2_convolve_no_overwrite:
  "(a < length h \<and> length (shape (h ! a)) = 2 \<and> shape kern = shape (fft2 (h ! a)) \<longrightarrow>
      (\<exists>r h'. fft2_convolve fft2 ifft2 h a kern False = (Inr r, h') \<and>
         h' ! r = ifft2 (elementwise_product (fft2 (h ! a)) kern) \<and>
         r \<noteq> a \<and> h' ! a = h ! a)) \<and>
   (a < length h \<and> 3 \<le> length (shape (h ! a)) \<longrightarrow>
      fst (fft2_convolve fft2 ifft2 h a kern False) = Inl ValueError \<and>
      snd (fft2_convolve fft2 ifft2 h a kern False) ! a = h ! a)"
  by (auto simp: fft2_convolve_def array_copy_def fft_convolve_def imul_def nth_append)

text \<open>
  On arrays with a single element per image the discrete Fourier transform is the
  identity: the convolution of \<open>[[2]]\<close> with the kernel \<open>[[3]]\<close> is a new array
  \<open>[[6]]\<close> beside the unchanged input, and the batch \<open>[[[2]]]\<close> is refused.
\<close>

theorem fft2_convolve_no_overwrite_witness:
  "fft2_convolve (\<lambda>x. x) (\<lambda>x. x) [\<lparr>shape = [1, 1], data = [2]\<rparr>] 0
      \<lparr>shape = [1, 1], data = [3]\<rparr> False =
     (Inr 1, [\<lparr>shape = [1, 1], data = [2]\<rparr>, \<lparr>shape = [1, 1], data = [6]\<rparr>]) \<and>
   fft2_convolve (\<lambda>x. x) (\<lambda>x. x) [\<lparr>shape = [1, 1, 1], data = [2]\<rparr>] 0
      \<lparr>shape = [1, 1], data = [3]\<rparr> False =
     (Inl ValueError, [\<lparr>shape = [1, 1, 1], data = [2]\<rparr>, \<lparr>shape = [1, 1, 1], data = [2]\<rparr>])"
  using
    fft2_convolve_no_overwrite [of 0 "[\<lparr>shape = [1, 1], data = [2]\<rparr>]"
      "\<lparr>shape = [1, 1], data = [3]\<rparr>" "\<lambda>x. x" "\<lambda>x. x"]
    fft2_convolve_no_overwrite [of 0 "[\<lparr>shape = [1, 1, 1], data = [2]\<rparr>]"
      "\<lparr>shape = [1, 1], data = [3]\<rparr>" "\<lambda>x. x" "\<lambda>x. x"]
  by (simp add: fft2_convolve_def array_copy_def fft_convolve_def imul_def
      elementwise_product_def)

section \<open>Properties of the annular detector\<close>

lemma AnnularDetector_detect_ones:
  "AnnularDetector_detect d waves =
     (if shape (array waves) = [] then Inl TypeError
      else Inr (replicate (hd (shape (array waves))) 1))"
  by (simp add: AnnularDetector_detect_def split: list.split)

lemma dft2_plane_wave: "dft2 [[1, 1], [1, 1]] = [[4, 0], [0, 0]]"
proof -
  have upt2: "[0..<2] = [0, 1]" by (simp add: upt_rec)
  have less2: "{..<2::nat} = {0, 1}" by auto
  have c: "cis (- pi) = - 1" "cis (- (2 * pi)) = 1"
    by (simp_all add: complex_eq_iff)
  show ?thesis
    by (simp add: dft2_def upt2 less2 c)
qed

lemma far_field_plane_wave: "far_field [[1, 1], [1, 1]] = [[16]]"
  by (simp add: far_field_def dft2_plane_wave fftshift_def fftshift1_def crop_to_center_def
      crop_axis_def abs2_def)

text \<open>
  C1. The claim fails on the code: \<open>detect\<close> returns a one for every entry of the leading
  axis, whatever the wave function and the angles of the detector. Take a single plane
  wave on a \<open>2 \<times> 2\<close> grid with the sampling \<open>1/2\<close> at the wavelength \<open>0.037\<close> (electrons of
  100 keV), and a detector from 5 to 10 mrad. The detector lies within the range the grid
  captures: \<open>_get_bins\<close> accepts it, below the largest angle \<open>0.037\<close>. The far field of the
  wave has all its intensity \<open>16\<close> in the pixel of scattering angle \<open>0\<close>, so the fraction
  of the intensity in the annular bin is \<open>0\<close>; the code returns \<open>1\<close>.
\<close>

theorem AnnularDetector_detect_plane_wave:
  "get_bins \<lparr>inner = Some (5 / 1000), outer = Some (10 / 1000)\<rparr> [1 / 2, 1 / 2] (37 / 1000) =
     Inr (5 / 1000, 10 / 1000, 1, 1) \<and>
   calculate_far_field_intensity \<lparr>shape = [1, 2, 2], data = [1, 1, 1, 1]\<rparr> = Inr [[[16]]] \<and>
   scattering_angles 2 2 [1 / 2, 1 / 2] (37 / 1000) = [[0]] \<and>
   annular_fractions \<lparr>inner = Some (5 / 1000), outer = Some (10 / 1000)\<rparr>
      \<lparr>shape = [1, 2, 2], data = [1, 1, 1, 1]\<rparr> [1 / 2, 1 / 2] (37 / 1000) = Inr [0] \<and>
   AnnularDetector_detect \<lparr>inner = Some (5 / 1000), outer = Some (10 / 1000)\<rparr>
      \<lparr>array = \<lparr>shape = [1, 2, 2], data = [1, 1, 1, 1]\<rparr>,
       accelerator = \<lparr>energy = Some 100000\<rparr>, extent = Some [1, 1], tilt = (0, 0),
       antialias_aperture = 2 / 3, extra_axes_metadata = []\<rparr> = Inr [1]"
proof -
  have bins: "get_bins \<lparr>inner = Some (5 / 1000), outer = Some (10 / 1000)\<rparr> [1 / 2, 1 / 2]
      (37 / 1000) = Inr (5 / 1000, 10 / 1000, 1, 1)"
    by (simp add: get_bins_def radial_steps_def azimuthal_steps_def Let_def ceiling_eq_iff)
  have one: "(1::nat) = Suc 0" by simp
  have far: "calculate_far_field_intensity \<lparr>shape = [1, 2, 2], data = [1, 1, 1, 1]\<rparr> =
      Inr [[[16]]]"
    by (simp add: calculate_far_field_intensity_def numeral_2_eq_2 far_field_plane_wave)
  have upt2: "[0..<2] = [0, 1]" by (simp add: upt_rec)
  have angles: "scattering_angles 2 2 [1 / 2, 1 / 2] (37 / 1000) = [[0]]"
    by (simp add: scattering_angles_def fftfreq_def upt2 fftshift_def fftshift1_def
        crop_to_center_def crop_axis_def)
  have fractions: "annular_fractions \<lparr>inner = Some (5 / 1000), outer = Some (10 / 1000)\<rparr>
      \<lparr>shape = [1, 2, 2], data = [1, 1, 1, 1]\<rparr> [1 / 2, 1 / 2] (37 / 1000) = Inr [0]"
    unfolding annular_fractions_def bins far
    by (simp add: angles annular_fraction_def)
  have detect: "AnnularDetector_detect \<lparr>inner = Some (5 / 1000), outer = Some (10 / 1000)\<rparr>
      \<lparr>array = \<lparr>shape = [1, 2, 2], data = [1, 1, 1, 1]\<rparr>,
       accelerator = \<lparr>energy = Some 100000\<rparr>, extent = Some [1, 1], tilt = (0, 0),
       antialias_aperture = 2 / 3, extra_axes_metadata = []\<rparr> = Inr [1]"
    by (simp add: AnnularDetector_detect_def)
  from bins far angles fractions detect show ?thesis by simp
qed

section \<open>Properties of the wave functions\<close>

lemma Waves_init_fields:
  "Waves_init arr en ext tlt ap extra = Inr w \<Longrightarrow>
     array w = arr \<and> Waves_energy w = en \<and> extent w = ext \<and> tilt w = tlt \<and>
     antialias_aperture w = ap"
  by (auto simp: Waves_init_def Waves_energy_def split: if_splits)

text \<open>
  What \<open>Waves.multislice\<close> does to the metadata: extent, energy and tilt of the exit wave
  are those of the incoming wave; the aperture is the incoming one for a single frozen
  phonon configuration and \<open>2/3\<close> otherwise.
\<close>

lemma Waves_multislice_metadata:
  assumes "Waves_multislice validate_potential propagate w pot splits = Inr w'"
    and "validate_potential w pot = Inr p"
  shows "extent w' = extent w \<and> Waves_energy w' = Waves_energy w \<and> tilt w' = tilt w \<and>
         antialias_aperture w' =
           (if num_frozen_phonons p = 1 then antialias_aperture w else 2 / 3)"
proof (cases "num_frozen_phonons p = 1")
  case True
  with assms show ?thesis
    by (auto simp: Waves_multislice_def multislice_def Waves_energy_def)
next
  case False
  with assms obtain arr where
    "Waves_init arr (Waves_energy w) (extent w) (tilt w) (2 / 3)
       (Some ([(''label'', ''frozen_phonons''), (''type'', ''ensemble'')]
              # extra_axes_metadata w)) = Inr w'"
    by (auto simp: Waves_multislice_def split: sum.splits)
  from Waves_init_fields [OF this] False show ?thesis by simp
qed

text \<open>
  C2. The claim fails on the code where the potential carries several frozen phonon
  configurations: the stacked exit wave is built with the aperture \<open>2/3\<close>, not with the
  aperture of the incoming wave. A wave function with aperture \<open>1/3\<close> sent through a
  potential with two configurations (here with a propagation that leaves the array as it
  is) comes out with aperture \<open>2/3\<close>; extent, energy and tilt are kept.
\<close>

theorem Waves_multislice_ensemble_aperture:
  "map_sum id (\<lambda>w'. (antialias_aperture w', extent w', Waves_energy w', tilt w', shape (array w')))
     (Waves_multislice (\<lambda>w p. Inr p) (\<lambda>a p splits. a)
        \<lparr>array = \<lparr>shape = [2, 2], data = [1, 1, 1, 1]\<rparr>,
         accelerator = \<lparr>energy = Some 100000\<rparr>, extent = Some [10, 10], tilt = (0, 0),
         antialias_aperture = 1 / 3, extra_axes_metadata = []\<rparr>
        (Potential 2 [Potential 1 [], Potential 1 []]) 1) =
   Inr (2 / 3, Some [10, 10], Some 100000, (0, 0), [2, 2, 2])"
  by (simp add: Waves_multislice_def Waves_copy_def Waves_init_def Waves_energy_def
      multislice_def stack_def)

text \<open>
  C6. \<open>apply_ctf\<close> raises the error of inconsistent energies exactly when the wave
  function and the contrast transfer function both define an energy and the two differ.
  When exactly one of them defines an energy \<open>x\<close>, no check of the energies fails, both
  objects hold \<open>x\<close> afterwards, and with a defined grid and a convolved array of two or
  more dimensions the call returns a wave function with energy \<open>x\<close>.
\<close>

theorem Waves_apply_ctf_energy:
  "(fst (Waves_apply_ctf evaluate_on_grid convolve w ctf in_place) =
       Inl (RuntimeError ''inconsistent energies'') \<longleftrightarrow>
     (\<exists>x y. Waves_energy w = Some x \<and> energy (ctf_accelerator ctf) = Some y \<and> x \<noteq> y)) \<and>
   (Waves_energy w = Some x \<and> energy (ctf_accelerator ctf) = None \<or>
    Waves_energy w = None \<and> energy (ctf_accelerator ctf) = Some x \<longrightarrow>
      (case Waves_apply_ctf evaluate_on_grid convolve w ctf in_place of
         (r, w', ctf') \<Rightarrow>
           Waves_energy w' = Some x \<and> energy (ctf_accelerator ctf') = Some x \<and>
           r \<noteq> Inl (RuntimeError ''inconsistent energies'') \<and>
           r \<noteq> Inl (RuntimeError ''energy is not defined'') \<and>
           (extent w \<noteq> None \<and>
            2 \<le> length (shape (convolve (array w)
                   (evaluate_on_grid ctf' (extent w)
                      (drop (length (shape (array w)) - 2) (shape (array w)))) in_place)) \<longrightarrow>
              (\<exists>v. r = Inr v \<and> Waves_energy v = Some x))))"
  by (auto simp: Waves_apply_ctf_def Accelerator_match_def Accelerator_check_match_def
      Accelerator_check_is_defined_def Waves_init_def Waves_energy_def truthy_def Let_def
      split: option.splits if_splits)

text \<open>
  A wave function of 100 keV: with a contrast transfer function of 80 keV the call
  raises the error of inconsistent energies; with one that defines no energy it returns
  a wave function of 100 keV and leaves 100 keV in both objects.
\<close>

theorem Waves_apply_ctf_energy_witness:
  "fst (Waves_apply_ctf (\<lambda>c e g. \<lparr>shape = g, data = [1, 1, 1, 1]\<rparr>) (\<lambda>a k ip. a)
      \<lparr>array = \<lparr>shape = [2, 2], data = [1, 1, 1, 1]\<rparr>,
       accelerator = \<lparr>energy = Some 100000\<rparr>, extent = Some [10, 10], tilt = (0, 0),
       antialias_aperture = 2 / 3, extra_axes_metadata = []\<rparr>
      \<lparr>ctf_accelerator = \<lparr>energy = Some 80000\<rparr>\<rparr> False) =
     Inl (RuntimeError ''inconsistent energies'') \<and>
   (case Waves_apply_ctf (\<lambda>c e g. \<lparr>shape = g, data = [1, 1, 1, 1]\<rparr>) (\<lambda>a k ip. a)
      \<lparr>array = \<lparr>shape = [2, 2], data = [1, 1, 1, 1]\<rparr>,
       accelerator = \<lparr>energy = Some 100000\<rparr>, extent = Some [10, 10], tilt = (0, 0),
       antialias_aperture = 2 / 3, extra_axes_metadata = []\<rparr>
      \<lparr>ctf_accelerator = \<lparr>energy = None\<rparr>\<rparr> False of
      (r, w', ctf') \<Rightarrow>
        Waves_energy w' = Some 100000 \<and> energy (ctf_accelerator ctf') = Some 100000 \<and>
        map_sum id Waves_energy r = Inr (Some 100000))"
  using
    Waves_apply_ctf_energy [where evaluate_on_grid = "\<lambda>c e g. \<lparr>shape = g, data = [1, 1, 1, 1]\<rparr>"
      and convolve = "\<lambda>a k ip. a"
      and w = "\<lparr>array = \<lparr>shape = [2, 2], data = [1, 1, 1, 1]\<rparr>,
         accelerator = \<lparr>energy = Some 100000\<rparr>, extent = Some [10, 10], tilt = (0, 0),
         antialias_aperture = 2 / 3, extra_axes_metadata = []\<rparr>"
      and ctf = "\<lparr>ctf_accelerator = \<lparr>energy = Some 80000\<rparr>\<rparr>" and in_place = False
      and x = 100000]
    Waves_apply_ctf_energy [where evaluate_on_grid = "\<lambda>c e g. \<lparr>shape = g, data = [1, 1, 1, 1]\<rparr>"
      and convolve = "\<lambda>a k ip. a"
      and w = "\<lparr>array = \<lparr>shape = [2, 2], data = [1, 1, 1, 1]\<rparr>,
         accelerator = \<lparr>energy = Some 100000\<rparr>, extent = Some [10, 10], tilt = (0, 0),
         antialias_aperture = 2 / 3, extra_axes_metadata = []\<rparr>"
      and ctf = "\<lparr>ctf_accelerator = \<lparr>energy = None\<rparr>\<rparr>" and in_place = False
      and x = 100000]
  by (simp add: Waves_apply_ctf_def Accelerator_match_def Accelerator_check_match_def
      Accelerator_check_is_defined_def Waves_init_def Waves_energy_def truthy_def Let_def)

section \<open>Properties of the grid\<close>

subsection \<open>The getters in closed form\<close>

lemma all_locked_get:
  assumes "gp_locked (extent_property g)" "gp_locked (gpts_property g)"
    "gp_locked (sampling_property g)"
  shows "extent_get n g = Inl RecursionError \<and> gpts_get n g = Inl RecursionError \<and>
         sampling_get n g = Inl RecursionError"
  using assms by (induction n) (simp_all add: ebind_def)

lemma extent_get_closed:
  "extent_get (Suc (Suc n)) g =
     (if gp_locked (gpts_property g) \<and> gp_locked (sampling_property g)
      then (if gp_locked (extent_property g) then Inl RecursionError
            else adjusted_extent (endpoint g) (to_py (gp_value (gpts_property g)))
                   (to_py (gp_value (sampling_property g))))
      else Inr (to_py (gp_value (extent_property g))))"
  using all_locked_get [of g "Suc n"] by (auto simp: ebind_def)

lemma gpts_get_closed:
  "gpts_get (Suc (Suc n)) g =
     (if gp_locked (extent_property g) \<and> gp_locked (sampling_property g)
      then (if gp_locked (gpts_property g) then Inl RecursionError
            else adjusted_sampling (endpoint g) (to_py (gp_value (extent_property g)))
                   (to_py (gp_value (sampling_property g))))
      else Inr (to_py (gp_value (gpts_property g))))"
  using all_locked_get [of g "Suc n"] by (auto simp: ebind_def)

lemma sampling_get_closed:
  "sampling_get (Suc (Suc n)) g =
     (if gp_locked (extent_property g) \<and> gp_locked (gpts_property g)
      then (if gp_locked (sampling_property g) then Inl RecursionError
            else adjusted_sampling (endpoint g) (to_py (gp_value (extent_property g)))
                   (to_py (gp_value (gpts_property g))))
      else Inr (to_py (gp_value (sampling_property g))))"
  using all_locked_get [of g "Suc n"] by (auto simp: ebind_def)

lemma recursion_limit_Suc: "recursion_limit = Suc (Suc 998)"
  by (simp add: recursion_limit_def)

lemma Grid_extent_closed:
  "Grid_extent g =
     (if gp_locked (gpts_property g) \<and> gp_locked (sampling_property g)
      then (if gp_locked (extent_property g) then Inl RecursionError
            else adjusted_extent (endpoint g) (to_py (gp_value (gpts_property g)))
                   (to_py (gp_value (sampling_property g))))
      else Inr (to_py (gp_value (extent_property g))))"
  unfolding Grid_extent_def recursion_limit_Suc by (rule extent_get_closed)

lemma Grid_gpts_closed:
  "Grid_gpts g =
     (if gp_locked (extent_property g) \<and> gp_locked (sampling_property g)
      then (if gp_locked (gpts_property g) then Inl RecursionError
            else adjusted_sampling (endpoint g) (to_py (gp_value (extent_property g)))
                   (to_py (gp_value (sampling_property g))))
      else Inr (to_py (gp_value (gpts_property g))))"
  unfolding Grid_gpts_def recursion_limit_Suc by (rule gpts_get_closed)

lemma Grid_sampling_closed:
  "Grid_sampling g =
     (if gp_locked (extent_property g) \<and> gp_locked (gpts_property g)
      then (if gp_locked (sampling_property g) then Inl RecursionError
            else adjusted_sampling (endpoint g) (to_py (gp_value (extent_property g)))
                   (to_py (gp_value (gpts_property g))))
      else Inr (to_py (gp_value (sampling_property g))))"
  unfolding Grid_sampling_def recursion_limit_Suc by (rule sampling_get_closed)

lemmas getters_closed = Grid_extent_closed Grid_gpts_closed Grid_sampling_closed

lemmas grid_monad_defs = gret_def graise_def glift_def gread_def gbind_def
  set_extent_value_def set_gpts_value_def set_sampling_value_def GridProperty_set_value_def

subsection \<open>The grid points \<open>_adjusted_gpts\<close> derives\<close>


subsection \<open>The setter of the extent with gpts and sampling locked\<close>

lemma extent_setter_locked:
  "gp_locked (gpts_property g) \<Longrightarrow> gp_locked (sampling_property g) \<Longrightarrow>
     extent_setter v g = (Inl (RuntimeError []), g)"
  by (simp add: extent_setter_def graise_def)

subsection \<open>Arithmetic on values of the right shape\<close>

lemma length_vec: "value_above d lb v \<Longrightarrow> length (vec d v) = d"
  by (cases v) simp_all

lemma vec_above: "value_above d lb v \<Longrightarrow> list_all (\<lambda>x. lb < x) (vec d v)"
  by (cases v) (simp_all add: list_all_length)

lemma map2_replicate_right:
  "length xs = d \<Longrightarrow> map2 f xs (replicate d y) = map (\<lambda>x. f x y) xs"
  by (rule nth_equalityI) simp_all

lemma map2_replicate_left:
  "length ys = d \<Longrightarrow> map2 f (replicate d x) ys = map (f x) ys"
  by (rule nth_equalityI) simp_all

lemma binop_arr_value:
  "length xs = d \<Longrightarrow> value_above d lb v \<Longrightarrow>
     binop f (PArr xs) v = Inr (PArr (map2 f xs (vec d v)))"
  by (cases v) (simp_all add: broadcast_def map2_replicate_right)

lemma binop_value_arr:
  "length ys = d \<Longrightarrow> value_above d lb v \<Longrightarrow>
     binop f v (PArr ys) = Inr (PArr (map2 f (vec d v) ys))"
  by (cases v) (simp_all add: broadcast_def map2_replicate_left)

lemma binop_arr_num: "binop f (PArr xs) (PNum y) = Inr (PArr (map (\<lambda>x. f x y) xs))"
  by simp

text \<open>\<open>value - 1\<close>: a list has no subtraction.\<close>

lemma minus_one_value:
  "value_above d lb v \<Longrightarrow>
     binop (-) v (PNum 1) =
       (if is_list v then Inl TypeError
        else Inr (case v of PNum x \<Rightarrow> PNum (x - 1) | _ \<Rightarrow> PArr (map (\<lambda>x. x - 1) (vec d v))))"
  by (cases v) simp_all

lemma value_above_minus_one:
  "value_above d lb v \<Longrightarrow> \<not> is_list v \<Longrightarrow>
     value_above d (lb - 1)
       (case v of PNum x \<Rightarrow> PNum (x - 1) | _ \<Rightarrow> PArr (map (\<lambda>x. x - 1) (vec d v))) \<and>
     vec d (case v of PNum x \<Rightarrow> PNum (x - 1) | _ \<Rightarrow> PArr (map (\<lambda>x. x - 1) (vec d v))) =
       map (\<lambda>x. x - 1) (vec d v)"
  by (cases v) (simp_all add: list_all_length)

lemma adjusted_sampling_value_arr:
  assumes "length gp = d" and "value_above d lb v"
  shows "adjusted_sampling ep v (PArr gp) =
           Inr (PArr (map2 (/) (vec d v) (map (\<lambda>n. n - min_gpts ep) gp)))"
  using assms
  by (simp add: adjusted_sampling_def ebind_def min_gpts_def binop_value_arr [of _ d lb])

lemma adjusted_sampling_arr_value:
  assumes "length ex = d" and "value_above d lb v"
  shows "adjusted_sampling ep (PArr ex) v =
           (if ep \<and> is_list v then Inl TypeError
            else Inr (PArr (map2 (/) ex (map (\<lambda>n. n - min_gpts ep) (vec d v)))))"
proof (cases ep)
  case False
  with assms show ?thesis
    by (simp add: adjusted_sampling_def min_gpts_def binop_arr_value [of _ d lb])
next
  case True
  show ?thesis
  proof (cases "is_list v")
    case l: True
    with True assms show ?thesis
      by (simp add: adjusted_sampling_def ebind_def minus_one_value [of d lb])
  next
    case l: False
    from value_above_minus_one [OF assms(2) l] True l assms show ?thesis
      by (simp add: adjusted_sampling_def ebind_def minus_one_value [of d lb] min_gpts_def
          binop_arr_value [of _ d "lb - 1"])
  qed
qed

lemma adjusted_extent_value_arr:
  assumes "length sm = d" and "value_above d lb v"
  shows "adjusted_extent ep v (PArr sm) =
           (if ep \<and> is_list v then Inl TypeError
            else Inr (PArr (map2 (*) (map (\<lambda>n. n - min_gpts ep) (vec d v)) sm)))"
proof (cases ep)
  case False
  with assms show ?thesis
    by (simp add: adjusted_extent_def min_gpts_def binop_value_arr [of _ d lb])
next
  case True
  show ?thesis
  proof (cases "is_list v")
    case l: True
    with True assms show ?thesis
      by (simp add: adjusted_extent_def ebind_def minus_one_value [of d lb])
  next
    case l: False
    from value_above_minus_one [OF assms(2) l] True l assms show ?thesis
      by (simp add: adjusted_extent_def ebind_def minus_one_value [of d lb] min_gpts_def
          binop_value_arr [of _ d "lb - 1"])
  qed
qed

lemma adjusted_extent_arr_value:
  assumes "length gp = d" and "value_above d lb v"
  shows "adjusted_extent ep (PArr gp) v =
           Inr (PArr (map2 (*) (map (\<lambda>n. n - min_gpts ep) gp) (vec d v)))"
  using assms
  by (simp add: adjusted_extent_def ebind_def min_gpts_def binop_arr_value [of _ d lb])

lemma adjusted_gpts_value_arr:
  assumes "length sm = d" and "value_above d lb v"
  shows "adjusted_gpts ep v (PArr sm) =
           Inr (PArr (map (\<lambda>q. of_int \<lceil>q\<rceil> + min_gpts ep) (map2 (/) (vec d v) sm)))"
  using assms
  by (simp add: adjusted_gpts_def ebind_def min_gpts_def binop_value_arr [of _ d lb] comp_def)

lemma adjusted_gpts_arr_value:
  assumes "length ex = d" and "value_above d lb v"
  shows "adjusted_gpts ep (PArr ex) v =
           Inr (PArr (map (\<lambda>q. of_int \<lceil>q\<rceil> + min_gpts ep) (map2 (/) ex (vec d v))))"
  using assms
  by (simp add: adjusted_gpts_def ebind_def min_gpts_def binop_arr_value [of _ d lb] comp_def)

subsection \<open>Lists of positive numbers\<close>

lemma quotient_positive:
  assumes "length v = length gp" and "list_all (\<lambda>x. 0 < x) v" and "list_all (\<lambda>x. m < x) gp"
  shows "list_all (\<lambda>x. (0::real) < x) (map2 (/) v (map (\<lambda>n. n - m) gp))"
  using assms by (simp add: list_all_length)

lemma product_positive:
  assumes "length gp = length sm" and "list_all (\<lambda>x. m < x) gp" and "list_all (\<lambda>x. 0 < x) sm"
  shows "list_all (\<lambda>x. (0::real) < x) (map2 (*) (map (\<lambda>n. n - m) gp) sm)"
  using assms by (simp add: list_all_length)

lemma ceiling_above:
  assumes "length ex = length v" and "list_all (\<lambda>x. 0 < x) ex" and "list_all (\<lambda>x. 0 < x) v"
  shows "list_all (\<lambda>x. min_gpts ep < x) (map (\<lambda>q. of_int \<lceil>q\<rceil> + min_gpts ep) (map2 (/) ex v))"
proof -
  have "0 < \<lceil>x / y\<rceil>" if "0 < x" "0 < y" for x y :: real
    using that by simp
  then show ?thesis using assms by (simp add: list_all_length)
qed

lemma quotient_times:
  assumes "length v = length gp" and "list_all (\<lambda>x. m < x) gp"
  shows "map2 (\<lambda>n s. (n - m) * s) gp (map2 (/) v (map (\<lambda>n. n - m) gp)) = (v :: real list)"
proof (rule nth_equalityI)
  show "length (map2 (\<lambda>n s. (n - m) * s) gp (map2 (/) v (map (\<lambda>n. n - m) gp))) = length v"
    using assms by simp
next
  fix i
  assume "i < length (map2 (\<lambda>n s. (n - m) * s) gp (map2 (/) v (map (\<lambda>n. n - m) gp)))"
  then have i: "i < length gp" "i < length v" using assms by simp_all
  then have "m < gp ! i" using assms(2) by (simp add: list_all_length)
  then have "gp ! i - m \<noteq> 0" by simp
  then show "map2 (\<lambda>n s. (n - m) * s) gp (map2 (/) v (map (\<lambda>n. n - m) gp)) ! i = v ! i"
    using i by simp
qed


lemma astype_int_ceiling:
  "map (astype DInt) (map (\<lambda>q. of_int \<lceil>q\<rceil> + min_gpts ep) qs) =
     map (\<lambda>q. of_int \<lceil>q\<rceil> + min_gpts ep) qs"
proof -
  have "astype DInt (of_int k + min_gpts ep) = of_int k + min_gpts ep" for k
  proof (cases ep)
    case True
    have "of_int k + (1::real) = of_int (k + 1)" by simp
    then show ?thesis using True
      by (simp only: astype_def astype_int_def min_gpts_def dtype.case if_True
          floor_of_int ceiling_of_int if_cancel)
  next
    case False
    then show ?thesis by (simp add: astype_def astype_int_def min_gpts_def)
  qed
  then show ?thesis by simp
qed

lemma astype_int_of_int: "astype DInt (of_int k) = of_int k"
  by (simp add: astype_def astype_int_def)

lemma astype_int_whole:
  "list_all (\<lambda>x. of_int \<lfloor>x\<rfloor> = x) xs \<Longrightarrow> map (astype DInt) xs = xs"
proof (induction xs)
  case Nil
  then show ?case by simp
next
  case (Cons x xs)
  then have "of_int \<lfloor>x\<rfloor> = x" by simp
  then obtain k where "x = of_int k" by (metis)
  then have "astype DInt x = x" by (simp only: astype_int_of_int)
  with Cons show ?case by simp
qed

lemma consistent_min_gpts:
  "(if ep then (n - 1) * s else n * s) = (n - min_gpts ep) * (s::real)"
  by (simp add: min_gpts_def)

subsection \<open>The setters keep well-formed grids and establish the relation\<close>

lemma validate_value:
  "value_above d lb v \<Longrightarrow> gp_dimensions p = d \<Longrightarrow>
     validate p v = Inr (Some (map (astype (gp_dtype p)) (vec d v)))"
  by (cases v) simp_all

lemma astype_int_shift: "astype DInt (of_int k + min_gpts ep) = of_int k + min_gpts ep"
proof (cases ep)
  case True
  have "of_int k + (1::real) = of_int (k + 1)" by simp
  then show ?thesis using True
    by (simp only: min_gpts_def if_True astype_int_of_int)
next
  case False
  then show ?thesis by (simp add: min_gpts_def astype_int_of_int)
qed

lemma positive_gridE:
  assumes "positive_grid g"
  obtains ex gp sm where
    "gp_value (extent_property g) = Some ex" "gp_value (gpts_property g) = Some gp"
    "gp_value (sampling_property g) = Some sm"
    "length ex = dimensions g" "length gp = dimensions g" "length sm = dimensions g"
    "list_all (\<lambda>x. 0 < x) ex" "list_all (\<lambda>x. min_gpts (endpoint g) < x) gp"
    "list_all (\<lambda>x. 0 < x) sm" "standard_grid g"
  using assms
  by (auto simp: positive_grid_def to_py_def split: option.splits)

lemma Grid_set_extent_keeps:
  assumes pg: "positive_grid g" and v: "value_above (dimensions g) 0 v"
    and run: "Grid_set_extent v g = (r, g')"
  shows "positive_grid g' \<and> dimensions g' = dimensions g \<and> endpoint g' = endpoint g \<and>
         ((\<exists>m. r = Inr m) \<longrightarrow> consistent g')"
proof -
  from pg obtain ex gp sm where st:
    "gp_value (extent_property g) = Some ex" "gp_value (gpts_property g) = Some gp"
    "gp_value (sampling_property g) = Some sm"
    and len: "length ex = dimensions g" "length gp = dimensions g" "length sm = dimensions g"
    and pos: "list_all (\<lambda>x. 0 < x) ex" "list_all (\<lambda>x. min_gpts (endpoint g) < x) gp"
    "list_all (\<lambda>x. 0 < x) sm" and std: "standard_grid g"
    by (rule positive_gridE)
  note lv = length_vec [OF v] and pv = vec_above [OF v]
  have vs: "value_above (dimensions g) 0 (PArr sm)" "value_above (dimensions g) 0 (PArr ex)"
    using len pos by simp_all
  have ne: "gp ! i \<noteq> min_gpts (endpoint g)" if "i < dimensions g" for i
    using pos(2) len(2) that by (auto simp: list_all_length)
  consider (both) "gp_locked (gpts_property g)" "gp_locked (sampling_property g)"
    | (free) "\<not> gp_locked (sampling_property g)"
    | (samp) "gp_locked (sampling_property g)" "\<not> gp_locked (gpts_property g)"
    by blast
  then show ?thesis
  proof cases
    case both
    then have "g' = g \<and> (\<exists>e. r = Inl e)"
      using run
      by (auto simp: Grid_set_extent_def notify_def gbind_def gread_def extent_setter_locked
          split: sum.splits)
    with pg show ?thesis by auto
  next
    case free
    show ?thesis
      using run free st len pos std lv pv v
      by (auto simp: Grid_set_extent_def notify_def extent_setter_def grid_monad_defs
          getters_closed to_py_def adjusted_sampling_value_arr [of _ "dimensions g" 0]
          validate_value [of "dimensions g" 0] astype_def comp_def standard_grid_def
          positive_grid_def consistent_def consistent_min_gpts list_all_length ne
          split: if_splits intro!: nth_equalityI)
  next
    case samp
    show ?thesis
      using run samp st len pos std lv pv v vs
      by (auto simp: Grid_set_extent_def notify_def extent_setter_def grid_monad_defs
          getters_closed to_py_def adjusted_sampling_value_arr [of _ "dimensions g" 0]
          adjusted_sampling_arr_value [of _ "dimensions g" 0]
          adjusted_gpts_value_arr [of _ "dimensions g" 0]
          validate_value [of "dimensions g" 0] astype_int_shift comp_def standard_grid_def
          positive_grid_def consistent_def list_all_length
          split: if_splits)
  qed
qed

lemma adjusted_sampling_arrays:
  "length xs = length ys \<Longrightarrow>
     adjusted_sampling ep (PArr xs) (PArr ys) =
       Inr (PArr (map2 (/) xs (map (\<lambda>n. n - min_gpts ep) ys)))"
  by (simp add: adjusted_sampling_def ebind_def min_gpts_def broadcast_def)

lemma adjusted_extent_arrays:
  "length xs = length ys \<Longrightarrow>
     adjusted_extent ep (PArr xs) (PArr ys) =
       Inr (PArr (map2 (*) (map (\<lambda>n. n - min_gpts ep) xs) ys))"
  by (simp add: adjusted_extent_def ebind_def min_gpts_def broadcast_def)

lemma whole_vec: "whole v \<Longrightarrow> map (astype DInt) (vec d v) = vec d v"
proof -
  assume "whole v"
  then have "list_all (\<lambda>x. of_int \<lfloor>x\<rfloor> = x) (vec d v)"
    by (cases v) (simp_all add: whole_def list_all_length)
  then show ?thesis by (rule astype_int_whole)
qed

lemma Grid_set_gpts_keeps:
  assumes pg: "positive_grid g" and v: "value_above (dimensions g) (min_gpts (endpoint g)) v"
    and w: "whole v" and run: "Grid_set_gpts v g = (r, g')"
  shows "positive_grid g' \<and> dimensions g' = dimensions g \<and> endpoint g' = endpoint g \<and>
         ((\<exists>m. r = Inr m) \<longrightarrow> consistent g')"
proof -
  from pg obtain ex gp sm where st:
    "gp_value (extent_property g) = Some ex" "gp_value (gpts_property g) = Some gp"
    "gp_value (sampling_property g) = Some sm"
    and len: "length ex = dimensions g" "length gp = dimensions g" "length sm = dimensions g"
    and pos: "list_all (\<lambda>x. 0 < x) ex" "list_all (\<lambda>x. min_gpts (endpoint g) < x) gp"
    "list_all (\<lambda>x. 0 < x) sm" and std: "standard_grid g"
    by (rule positive_gridE)
  note lv = length_vec [OF v] and pv = vec_above [OF v] and wv = whole_vec [OF w, of "dimensions g"]
  have vs: "value_above (dimensions g) 0 (PArr sm)" "value_above (dimensions g) 0 (PArr ex)"
    using len pos by simp_all
  have ne: "\<forall>i<dimensions g. vec (dimensions g) v ! i - min_gpts (endpoint g) \<noteq> 0"
    using pv lv by (auto simp: list_all_length)
  consider (both) "gp_locked (extent_property g)" "gp_locked (sampling_property g)"
    | (free) "\<not> gp_locked (sampling_property g)"
    | (samp) "gp_locked (sampling_property g)" "\<not> gp_locked (extent_property g)"
    by blast
  then show ?thesis
  proof cases
    case both
    then have "g' = g \<and> (\<exists>e. r = Inl e)"
      using run
      by (auto simp: Grid_set_gpts_def notify_def gbind_def gread_def gpts_setter_def graise_def
          split: sum.splits)
    with pg show ?thesis by auto
  next
    case free
    show ?thesis
      using run free st len pos std lv pv v wv ne
      by (auto simp: Grid_set_gpts_def notify_def gpts_setter_def grid_monad_defs
          getters_closed to_py_def
          adjusted_sampling_arr_value [of _ "dimensions g" "min_gpts (endpoint g)"]
          validate_value [of "dimensions g" "min_gpts (endpoint g)"]
          validate_value [of "dimensions g" 0] astype_def comp_def standard_grid_def
          positive_grid_def consistent_def consistent_min_gpts list_all_length
          split: if_splits intro!: nth_equalityI)
  next
    case samp
    show ?thesis
      using run samp st len pos std lv pv v vs wv ne
      by (auto simp: Grid_set_gpts_def notify_def gpts_setter_def grid_monad_defs
          getters_closed to_py_def
          adjusted_extent_value_arr [of _ "dimensions g" "min_gpts (endpoint g)"]
          adjusted_extent_arr_value [of _ "dimensions g" 0]
          validate_value [of "dimensions g" "min_gpts (endpoint g)"]
          validate_value [of "dimensions g" 0] astype_def comp_def standard_grid_def
          positive_grid_def consistent_def consistent_min_gpts list_all_length
          split: if_splits intro!: nth_equalityI)
  qed
qed

lemma Grid_set_sampling_keeps:
  assumes pg: "positive_grid g" and v: "value_above (dimensions g) 0 v"
    and run: "Grid_set_sampling v g = (r, g')"
  shows "positive_grid g' \<and> dimensions g' = dimensions g \<and> endpoint g' = endpoint g \<and>
         ((\<exists>m. r = Inr m) \<longrightarrow> consistent g')"
proof -
  from pg obtain ex gp sm where st:
    "gp_value (extent_property g) = Some ex" "gp_value (gpts_property g) = Some gp"
    "gp_value (sampling_property g) = Some sm"
    and len: "length ex = dimensions g" "length gp = dimensions g" "length sm = dimensions g"
    and pos: "list_all (\<lambda>x. 0 < x) ex" "list_all (\<lambda>x. min_gpts (endpoint g) < x) gp"
    "list_all (\<lambda>x. 0 < x) sm" and std: "standard_grid g"
    by (rule positive_gridE)
  note lv = length_vec [OF v] and pv = vec_above [OF v]
  have vs: "value_above (dimensions g) 0 (PArr sm)" "value_above (dimensions g) 0 (PArr ex)"
    "value_above (dimensions g) (min_gpts (endpoint g)) (PArr gp)"
    using len pos by simp_all
  have quot: "\<forall>i<dimensions g. 0 < ex ! i / vec (dimensions g) v ! i"
    using pv lv pos(1) len(1) by (auto simp: list_all_length)
  consider (both) "gp_locked (gpts_property g)" "gp_locked (extent_property g)"
    | (free) "\<not> gp_locked (gpts_property g)"
    | (fixed) "gp_locked (gpts_property g)" "\<not> gp_locked (extent_property g)"
    by blast
  then show ?thesis
  proof cases
    case both
    then have "g' = g \<and> (\<exists>e. r = Inl e)"
      using run
      by (auto simp: Grid_set_sampling_def notify_def gbind_def gread_def sampling_setter_def
          graise_def split: sum.splits)
    with pg show ?thesis by auto
  next
    case free
    let ?n = "map (\<lambda>q. of_int \<lceil>q\<rceil> + min_gpts (endpoint g)) (map2 (/) ex (vec (dimensions g) v))"
    have n: "value_above (dimensions g) (min_gpts (endpoint g)) (PArr ?n)"
      using len lv quot by (simp add: list_all_length)
    have cne: "\<forall>i<dimensions g. \<lceil>ex ! i / vec (dimensions g) v ! i\<rceil> \<noteq> 0"
    proof (intro allI impI)
      fix i assume "i < dimensions g"
      with quot have "0 < ex ! i / vec (dimensions g) v ! i" by simp
      then have "0 < \<lceil>ex ! i / vec (dimensions g) v ! i\<rceil>" by (simp only: zero_less_ceiling)
      then show "\<lceil>ex ! i / vec (dimensions g) v ! i\<rceil> \<noteq> 0" by linarith
    qed
    show ?thesis
      using run free st len pos std lv v vs n quot cne
      by (auto simp: Grid_set_sampling_def notify_def sampling_setter_def grid_monad_defs
          getters_closed to_py_def
          adjusted_gpts_arr_value [of _ "dimensions g" 0]
          adjusted_sampling_arrays
          validate_value [of "dimensions g" "min_gpts (endpoint g)"]
          validate_value [of "dimensions g" 0] astype_def astype_int_shift [unfolded astype_def, simplified]
          comp_def standard_grid_def
          positive_grid_def consistent_def consistent_min_gpts list_all_length
          split: if_splits intro!: nth_equalityI)
  next
    case fixed
    show ?thesis
      using run fixed st len pos std lv pv v vs
      by (auto simp: Grid_set_sampling_def notify_def sampling_setter_def grid_monad_defs
          getters_closed to_py_def
          adjusted_extent_arr_value [of _ "dimensions g" 0]
          validate_value [of "dimensions g" 0] astype_def comp_def standard_grid_def
          positive_grid_def consistent_def consistent_min_gpts list_all_length
          split: if_splits intro!: nth_equalityI)
  qed
qed

subsection \<open>The constructor establishes the relation\<close>

lemma adjusted_gpts_arrays_min:
  "length xs = length ys \<Longrightarrow>
     adjusted_gpts ep (PArr xs) (PArr ys) =
       Inr (PArr (map (\<lambda>q. of_int \<lceil>q\<rceil> + min_gpts ep) (map2 (/) xs ys)))"
  by (simp add: adjusted_gpts_def ebind_def min_gpts_def broadcast_def comp_def)

lemmas init_defs = Grid_init_def make_property_def GridProperty_init_def init_body_def
  arg_is_not_None_def ebind_def

lemma Grid_init_extent_gpts:
  assumes e: "value_above d 0 e" and n: "value_above d (min_gpts ep) n" and w: "whole n"
  shows "\<exists>g. Grid_init (Raw e) (Raw n) (Raw PNone) d ep = Inr g \<and>
           positive_grid g \<and> consistent g \<and> dimensions g = d \<and> endpoint g = ep"
proof -
  note le = length_vec [OF e] and ln = length_vec [OF n]
    and pe = vec_above [OF e] and pn = vec_above [OF n] and wn = whole_vec [OF w, of d]
  have ne: "\<forall>i<d. vec d n ! i - min_gpts ep \<noteq> 0"
    using pn ln by (auto simp: list_all_length)
  have nn: "e \<noteq> PNone" "n \<noteq> PNone" using e n by auto
  show ?thesis
    using le ln pe pn wn ne nn
    by (auto simp: init_defs validate_value [OF e] validate_value [OF n] grid_monad_defs
        getters_closed to_py_def adjusted_sampling_arrays astype_def comp_def
        standard_grid_def positive_grid_def consistent_def consistent_min_gpts
        list_all_length intro!: nth_equalityI)
qed

lemma Grid_init_extent_sampling:
  assumes e: "value_above d 0 e" and s: "value_above d 0 s"
  shows "\<exists>g. Grid_init (Raw e) (Raw PNone) (Raw s) d ep = Inr g \<and>
           positive_grid g \<and> consistent g \<and> dimensions g = d \<and> endpoint g = ep"
proof -
  note le = length_vec [OF e] and ls = length_vec [OF s]
    and pe = vec_above [OF e] and ps = vec_above [OF s]
  have quot: "\<forall>i<d. 0 < vec d e ! i / vec d s ! i"
    using pe ps le ls by (auto simp: list_all_length)
  have cne: "\<forall>i<d. \<lceil>vec d e ! i / vec d s ! i\<rceil> \<noteq> 0"
  proof (intro allI impI)
    fix i assume "i < d"
    with quot have "0 < vec d e ! i / vec d s ! i" by simp
    then have "0 < \<lceil>vec d e ! i / vec d s ! i\<rceil>" by (simp only: zero_less_ceiling)
    then show "\<lceil>vec d e ! i / vec d s ! i\<rceil> \<noteq> 0" by linarith
  qed
  have nn: "e \<noteq> PNone" "s \<noteq> PNone" using e s by auto
  show ?thesis
    using le ls pe ps quot cne nn
    by (auto simp: init_defs validate_value [OF e] validate_value [OF s] grid_monad_defs
        getters_closed to_py_def adjusted_sampling_arrays adjusted_gpts_arrays_min
        astype_def astype_int_shift [unfolded astype_def, simplified] comp_def
        standard_grid_def positive_grid_def consistent_def consistent_min_gpts
        list_all_length intro!: nth_equalityI)
qed

lemma Grid_init_gpts_sampling:
  assumes n: "value_above d (min_gpts ep) n" and w: "whole n" and s: "value_above d 0 s"
  shows "\<exists>g. Grid_init (Raw PNone) (Raw n) (Raw s) d ep = Inr g \<and>
           positive_grid g \<and> consistent g \<and> dimensions g = d \<and> endpoint g = ep"
proof -
  note ln = length_vec [OF n] and ls = length_vec [OF s]
    and pn = vec_above [OF n] and ps = vec_above [OF s] and wn = whole_vec [OF w, of d]
  have ne: "\<forall>i<d. vec d n ! i - min_gpts ep \<noteq> 0"
    using pn ln by (auto simp: list_all_length)
  have nn: "n \<noteq> PNone" "s \<noteq> PNone" using n s by auto
  show ?thesis
    using ln ls pn ps wn ne nn
    by (auto simp: init_defs validate_value [OF n] validate_value [OF s] grid_monad_defs
        getters_closed to_py_def adjusted_sampling_arrays adjusted_extent_arrays
        astype_def comp_def
        standard_grid_def positive_grid_def consistent_def consistent_min_gpts
        list_all_length intro!: nth_equalityI)
qed

subsection \<open>The relation after every successful call\<close>

lemma call_keeps:
  assumes "positive_grid g" and "positive_call (dimensions g) (endpoint g) c"
  shows "positive_grid (snd (call c g)) \<and> dimensions (snd (call c g)) = dimensions g \<and>
         endpoint (snd (call c g)) = endpoint g \<and>
         ((\<exists>m. fst (call c g) = Inr m) \<longrightarrow> consistent (snd (call c g)))"
proof (cases c)
  case (SetExtent v)
  with assms Grid_set_extent_keeps [of g v "fst (Grid_set_extent v g)" "snd (Grid_set_extent v g)"]
  show ?thesis by simp
next
  case (SetGpts v)
  with assms Grid_set_gpts_keeps [of g v "fst (Grid_set_gpts v g)" "snd (Grid_set_gpts v g)"]
  show ?thesis by simp
next
  case (SetSampling v)
  with assms Grid_set_sampling_keeps [of g v "fst (Grid_set_sampling v g)" "snd (Grid_set_sampling v g)"]
  show ?thesis by simp
qed

lemma run_calls_keeps:
  assumes "positive_grid g" and "list_all (positive_call (dimensions g) (endpoint g)) cs"
  shows "positive_grid (run_calls cs g) \<and> dimensions (run_calls cs g) = dimensions g \<and>
         endpoint (run_calls cs g) = endpoint g"
  using assms
proof (induction cs arbitrary: g)
  case Nil
  then show ?case by simp
next
  case (Cons c cs)
  from Cons.prems have c: "positive_call (dimensions g) (endpoint g) c"
    and cs: "list_all (positive_call (dimensions g) (endpoint g)) cs" by simp_all
  from call_keeps [OF Cons.prems(1) c] have
    k: "positive_grid (snd (call c g))" "dimensions (snd (call c g)) = dimensions g"
       "endpoint (snd (call c g)) = endpoint g" by simp_all
  from Cons.IH [OF k(1)] cs k show ?case by simp
qed

text \<open>
  C4, amended to the values for which the code keeps the relation. A grid constructed
  from two of extent, gpts and sampling, given as positive values
  of the dimension of the grid (a number, a list or an array; whole numbers for gpts,
  above one for a grid with its endpoint), stores values with
  \<open>extent = gpts * sampling\<close>, and \<open>extent = (gpts - 1) * sampling\<close> with its endpoint. After
  any sequence of setter calls with such values, each of which may have raised, a setter
  call that succeeds leaves stored values that satisfy the relation again.
\<close>

theorem Grid_relation_kept:
  assumes "value_above d 0 e" and "value_above d (min_gpts ep) n" and "whole n"
    and "value_above d 0 s"
    and "init = Grid_init (Raw e) (Raw n) (Raw PNone) d ep \<or>
         init = Grid_init (Raw e) (Raw PNone) (Raw s) d ep \<or>
         init = Grid_init (Raw PNone) (Raw n) (Raw s) d ep"
    and "list_all (positive_call d ep) cs" and "positive_call d ep c"
  shows "\<exists>g. init = Inr g \<and> consistent g \<and>
           (\<forall>m g'. call c (run_calls cs g) = (Inr m, g') \<longrightarrow> consistent g')"
proof -
  from assms(1-5) obtain g where g: "init = Inr g" "positive_grid g" "consistent g"
      "dimensions g = d" "endpoint g = ep"
    using Grid_init_extent_gpts [of d e ep n] Grid_init_extent_sampling [of d e s ep]
      Grid_init_gpts_sampling [of d ep n s]
    by blast
  from run_calls_keeps [of g cs] g assms(6) have
    r: "positive_grid (run_calls cs g)" "dimensions (run_calls cs g) = d"
       "endpoint (run_calls cs g) = ep" by simp_all
  from call_keeps [of "run_calls cs g" c] r assms(7) have
    "(\<exists>m. fst (call c (run_calls cs g)) = Inr m) \<longrightarrow> consistent (snd (call c (run_calls cs g)))"
    by simp
  then have "\<forall>m g'. call c (run_calls cs g) = (Inr m, g') \<longrightarrow> consistent g'"
    by auto
  with g show ?thesis by blast
qed

text \<open>
  The grid \<open>Grid(extent=10, sampling=3)\<close> in two dimensions gets four grid points and the
  sampling \<open>5/2\<close>. After \<open>gpts = 5\<close> the call \<open>sampling = 3\<close> succeeds and leaves four
  grid points and the sampling \<open>5/2\<close> again, with the extent \<open>10\<close>.
\<close>

lemma Grid_relation_kept_example:
  "(case Grid_init (Raw (PNum 10)) (Raw PNone) (Raw (PNum 3)) 2 False of
      Inl e \<Rightarrow> False
    | Inr g \<Rightarrow>
        gp_value (gpts_property g) = Some [4, 4] \<and>
        gp_value (sampling_property g) = Some [5 / 2, 5 / 2] \<and>
        (case call (SetSampling (PNum 3)) (run_calls [SetGpts (PNum 5)] g) of
           (r, g') \<Rightarrow>
             r = Inr \<lparr>notifier = ''sampling'', change = True\<rparr> \<and>
             gp_value (extent_property g') = Some [10, 10] \<and>
             gp_value (gpts_property g') = Some [4, 4] \<and>
             gp_value (sampling_property g') = Some [5 / 2, 5 / 2]))"
  by code_simp

theorem Grid_relation_kept_witness:
  "value_above 2 0 (PNum 10) \<and> value_above 2 (min_gpts False) (PNum 4) \<and> whole (PNum 4) \<and>
   value_above 2 0 (PNum 3) \<and>
   list_all (positive_call 2 False) [SetGpts (PNum 5)] \<and>
   positive_call 2 False (SetSampling (PNum 3)) \<and>
   (case Grid_init (Raw (PNum 10)) (Raw PNone) (Raw (PNum 3)) 2 False of
      Inl e \<Rightarrow> False
    | Inr g \<Rightarrow>
        consistent g \<and>
        (case call (SetSampling (PNum 3)) (run_calls [SetGpts (PNum 5)] g) of
           (r, g') \<Rightarrow>
             r = Inr \<lparr>notifier = ''sampling'', change = True\<rparr> \<and> consistent g' \<and>
             gp_value (gpts_property g') = Some [4, 4]))"
proof -
  have hyps: "value_above 2 0 (PNum 10)" "value_above 2 (min_gpts False) (PNum 4)"
    "whole (PNum 4)" "value_above 2 0 (PNum 3)"
    "list_all (positive_call 2 False) [SetGpts (PNum 5)]"
    "positive_call 2 False (SetSampling (PNum 3))"
    by (simp_all add: min_gpts_def whole_def)
  from Grid_relation_kept [OF hyps(1-4) _ hyps(5,6),
      of "Grid_init (Raw (PNum 10)) (Raw PNone) (Raw (PNum 3)) 2 False"]
  obtain g where g: "Grid_init (Raw (PNum 10)) (Raw PNone) (Raw (PNum 3)) 2 False = Inr g"
    "consistent g"
    "\<forall>m g'. call (SetSampling (PNum 3)) (run_calls [SetGpts (PNum 5)] g) = (Inr m, g') \<longrightarrow>
       consistent g'"
    by blast
  from Grid_relation_kept_example g(1) g(3) have
    "case call (SetSampling (PNum 3)) (run_calls [SetGpts (PNum 5)] g) of
       (r, g') \<Rightarrow>
         r = Inr \<lparr>notifier = ''sampling'', change = True\<rparr> \<and> consistent g' \<and>
         gp_value (gpts_property g') = Some [4, 4]"
    by (auto split: prod.splits)
  with g(1,2) hyps show ?thesis by simp
qed

text \<open>
  The claim fails on the code. On \<open>Grid(extent=10, gpts=5)\<close> in two dimensions the call
  \<open>grid.gpts = 2.5\<close> succeeds: the sampling becomes \<open>10 / 2.5 = 4\<close> and the integer
  property stores two grid points, so \<open>gpts * sampling = 8\<close> beside the extent \<open>10\<close>. On the
  same grid \<open>grid.extent = None\<close> succeeds and leaves no extent.
\<close>

theorem Grid_relation_broken:
  "(case Grid_init (Raw (PNum 10)) (Raw (PNum 5)) (Raw PNone) 2 False of
      Inl e \<Rightarrow> False
    | Inr g \<Rightarrow>
        consistent g \<and>
        (case call (SetGpts (PNum (5 / 2))) g of
           (r, g') \<Rightarrow>
             r = Inr \<lparr>notifier = ''gpts'', change = True\<rparr> \<and>
             gp_value (extent_property g') = Some [10, 10] \<and>
             gp_value (gpts_property g') = Some [2, 2] \<and>
             gp_value (sampling_property g') = Some [4, 4] \<and>
             \<not> consistent g') \<and>
        (case call (SetExtent PNone) g of
           (r, g') \<Rightarrow>
             r = Inr \<lparr>notifier = ''extent'', change = True\<rparr> \<and>
             gp_value (extent_property g') = None \<and> \<not> consistent g'))"
  by code_simp

subsection \<open>Matching: the setters on a grid that receives a value\<close>











subsection \<open>Matching two grids\<close>




subsection \<open>What the constructor refuses\<close>






















subsection \<open>Reading gpts\<close>








subsection \<open>Locked properties\<close>




end
